theory Spec2Isabelle
  imports Main
begin

section \<open>The FireCrawl tool server\<close>

text \<open>
  The repository holds two variants of the FireCrawl server. The first,
  \<^verbatim>\<open>src/fire-crawl/index.ts\<close>, offers the tools scrape, map and crawl and keeps one
  \<^verbatim>\<open>requestCount\<close> object with a single \<^verbatim>\<open>lastReset\<close> timestamp. The second, the
  unnamed file \<^verbatim>\<open>part_000\<close>, offers scrape and batch and keeps one \<^verbatim>\<open>RateLimit\<close> window
  per granularity. Definitions taken from the first carry the suffix \<open>_index\<close>, those
  taken from the second the suffix \<open>_part0\<close>, wherever both files use the same name.
\<close>

subsection \<open>JavaScript values\<close>

text \<open>
  Argument bags and upstream payloads are untyped at run time: the type guards inspect
  them, and the \<^verbatim>\<open>as\<close> casts on \<^verbatim>\<open>response.json()\<close> check nothing. They are modelled as
  JSON-like values. An object is an association list whose first binding of a key is the
  one read (JSON parsing yields distinct keys). Numbers are the integers, which
  JavaScript prints in plain decimal below \<open>10^21\<close>; fractions are outside the model.
  Strings are ASCII text.
\<close>

datatype jsval =
    JUndefined
  | JNull
  | JBool bool
  | JNum int
  | JStr string
  | JArr "jsval list"
  | JObj "(string \<times> jsval) list"

text \<open>A thrown \<^verbatim>\<open>Error\<close> (also a \<^verbatim>\<open>TypeError\<close> or \<^verbatim>\<open>SyntaxError\<close>), with its message.\<close>

datatype js_error = Error (message: string)

text \<open>\<^verbatim>\<open>!v\<close> is \<open>\<not> truthy v\<close>.\<close>

fun truthy :: "jsval \<Rightarrow> bool" where
  "truthy JUndefined = False"
| "truthy JNull = False"
| "truthy (JBool b) = b"
| "truthy (JNum n) = (n \<noteq> 0)"
| "truthy (JStr s) = (s \<noteq> [])"
| "truthy (JArr xs) = True"
| "truthy (JObj fs) = True"

text \<open>\<^verbatim>\<open>typeof v === "object"\<close>: true of \<^verbatim>\<open>null\<close>, of arrays and of objects.\<close>

fun typeof_object :: "jsval \<Rightarrow> bool" where
  "typeof_object JNull = True"
| "typeof_object (JArr xs) = True"
| "typeof_object (JObj fs) = True"
| "typeof_object v = False"

fun typeof_string :: "jsval \<Rightarrow> bool" where
  "typeof_string (JStr s) = True"
| "typeof_string v = False"

fun isArray :: "jsval \<Rightarrow> bool" where
  "isArray (JArr xs) = True"
| "isArray v = False"

text \<open>
  \<^verbatim>\<open>k in v\<close> for a value that passed \<^verbatim>\<open>typeof v === "object" && v !== null\<close>, and for the
  keys the guards ask about (\<^verbatim>\<open>url\<close>, \<^verbatim>\<open>urls\<close>): an array has index keys and \<^verbatim>\<open>length\<close>
  only.
\<close>

fun has_key :: "string \<Rightarrow> jsval \<Rightarrow> bool" where
  "has_key k (JObj fs) = (map_of fs k \<noteq> None)"
| "has_key k v = False"

text \<open>
  \<^verbatim>\<open>v.k\<close> where \<open>v\<close> is neither \<^verbatim>\<open>null\<close> nor \<^verbatim>\<open>undefined\<close>: a missing key reads as
  \<^verbatim>\<open>undefined\<close>, and so does any of the keys the program reads on a primitive or an array.
\<close>

fun member_js :: "jsval \<Rightarrow> string \<Rightarrow> jsval" where
  "member_js (JObj fs) k = (case map_of fs k of None \<Rightarrow> JUndefined | Some x \<Rightarrow> x)"
| "member_js v k = JUndefined"

text \<open>\<^verbatim>\<open>v.k\<close> in general: reading a property of \<^verbatim>\<open>null\<close> or \<^verbatim>\<open>undefined\<close> throws.\<close>

fun getProp :: "jsval \<Rightarrow> string \<Rightarrow> js_error + jsval" where
  "getProp JUndefined k =
     Inl (Error (''Cannot read properties of undefined (reading '' @ [CHR 0x27] @ k @ [CHR 0x27] @ '')''))"
| "getProp JNull k =
     Inl (Error (''Cannot read properties of null (reading '' @ [CHR 0x27] @ k @ [CHR 0x27] @ '')''))"
| "getProp v k = Inr (member_js v k)"

text \<open>
  Decimal printing of a number, as a template literal or \<^verbatim>\<open>String\<close> does it;
  \<open>digit\<close> is applied to numbers below ten only.
\<close>

definition digit :: "nat \<Rightarrow> char" where
  "digit d = ''0123456789'' ! d"

fun show_nat :: "nat \<Rightarrow> string" where
  "show_nat n = (if n < 10 then [digit n] else show_nat (n div 10) @ [digit (n mod 10)])"

declare show_nat.simps [simp del]

definition show_int :: "int \<Rightarrow> string" where
  "show_int i = (if i < 0 then CHR ''-'' # show_nat (nat (- i)) else show_nat (nat i))"

text \<open>\<^verbatim>\<open>Array.prototype.join\<close> on strings already converted.\<close>

fun join_strings :: "string \<Rightarrow> string list \<Rightarrow> string" where
  "join_strings sep [] = []"
| "join_strings sep [x] = x"
| "join_strings sep (x # y # ys) = x @ sep @ join_strings sep (y # ys)"

text \<open>
  \<^verbatim>\<open>String(v)\<close>, which a template literal applies to each hole and \<^verbatim>\<open>join\<close> to each
  element, except that \<^verbatim>\<open>join\<close> prints \<^verbatim>\<open>null\<close> and \<^verbatim>\<open>undefined\<close> elements as the empty
  string.
\<close>

fun toString_js :: "jsval \<Rightarrow> string"
  and join_element :: "jsval \<Rightarrow> string" where
  "toString_js JUndefined = ''undefined''"
| "toString_js JNull = ''null''"
| "toString_js (JBool b) = (if b then ''true'' else ''false'')"
| "toString_js (JNum n) = show_int n"
| "toString_js (JStr s) = s"
| "toString_js (JArr xs) = join_strings '','' (map join_element xs)"
| "toString_js (JObj fs) = ''[object Object]''"
| "join_element v = (case v of JUndefined \<Rightarrow> [] | JNull \<Rightarrow> [] | _ \<Rightarrow> toString_js v)"

definition join_js :: "string \<Rightarrow> jsval list \<Rightarrow> string" where
  "join_js sep xs = join_strings sep (map join_element xs)"

text \<open>
  \<^verbatim>\<open>String.prototype.trim\<close>: white space and line terminators are dropped at both ends.
  Of the code points ECMAScript lists, those of ASCII text are TAB, LF, VT, FF, CR and
  the space.
\<close>

definition isWhiteSpace :: "char \<Rightarrow> bool" where
  "isWhiteSpace c = (c \<in> set [CHR 0x09, CHR 0x0A, CHR 0x0B, CHR 0x0C, CHR 0x0D, CHR 0x20])"

definition trim :: "string \<Rightarrow> string" where
  "trim s = rev (dropWhile isWhiteSpace (rev (dropWhile isWhiteSpace s)))"

subsection \<open>Rate limiting\<close>

text \<open>\<^verbatim>\<open>RATE_LIMIT\<close>, the same constant in both files.\<close>

definition perSecond :: nat where
  "perSecond = 2"

definition perMinute :: nat where
  "perMinute = 60"

text \<open>
  \<^verbatim>\<open>index.ts\<close>: the \<^verbatim>\<open>requestCount\<close> object. The fields are named \<^verbatim>\<open>second\<close>, \<^verbatim>\<open>minute\<close>
  and \<^verbatim>\<open>lastReset\<close> in the source.
\<close>

record requestCount =
  rc_second :: nat
  rc_minute :: nat
  rc_lastReset :: int

text \<open>
  \<^verbatim>\<open>checkRateLimit\<close> of \<^verbatim>\<open>index.ts\<close>, with \<open>now\<close> the value \<^verbatim>\<open>Date.now()\<close> returns. The
  three statements of the source are three steps on the state; the second reads the
  \<^verbatim>\<open>lastReset\<close> the first may just have written.
\<close>

definition resetSecond_index :: "int \<Rightarrow> requestCount \<Rightarrow> requestCount" where
  "resetSecond_index now rc =
     (if now - rc_lastReset rc > 1000 then rc\<lparr>rc_second := 0, rc_lastReset := now\<rparr> else rc)"

definition resetMinute_index :: "int \<Rightarrow> requestCount \<Rightarrow> requestCount" where
  "resetMinute_index now rc =
     (if now - rc_lastReset rc > 60000 then rc\<lparr>rc_minute := 0\<rparr> else rc)"

definition checkRateLimit_index :: "int \<Rightarrow> requestCount \<Rightarrow> (js_error + unit) \<times> requestCount" where
  "checkRateLimit_index now rc =
     (let rc1 = resetSecond_index now rc;
          rc2 = resetMinute_index now rc1
      in if rc_second rc2 \<ge> perSecond \<or> rc_minute rc2 \<ge> perMinute
         then (Inl (Error ''Rate limit exceeded''), rc2)
         else (Inr (), rc2\<lparr>rc_second := rc_second rc2 + 1, rc_minute := rc_minute rc2 + 1\<rparr>))"

text \<open>\<^verbatim>\<open>part_000\<close>: one \<^verbatim>\<open>RateLimit\<close> per window, each with its own start.\<close>

record RateLimit =
  count :: nat
  lastReset :: int

record rateLimits =
  second :: RateLimit
  minute :: RateLimit

definition resetSecond_part0 :: "int \<Rightarrow> rateLimits \<Rightarrow> rateLimits" where
  "resetSecond_part0 now rl =
     (if now - lastReset (second rl) > 1000
      then rl\<lparr>second := \<lparr>count = 0, lastReset = now\<rparr>\<rparr> else rl)"

definition resetMinute_part0 :: "int \<Rightarrow> rateLimits \<Rightarrow> rateLimits" where
  "resetMinute_part0 now rl =
     (if now - lastReset (minute rl) > 60000
      then rl\<lparr>minute := \<lparr>count = 0, lastReset = now\<rparr>\<rparr> else rl)"

definition checkRateLimit_part0 :: "int \<Rightarrow> rateLimits \<Rightarrow> (js_error + unit) \<times> rateLimits" where
  "checkRateLimit_part0 now rl =
     (let rl1 = resetSecond_part0 now rl;
          rl2 = resetMinute_part0 now rl1
      in if count (second rl2) \<ge> perSecond \<or> count (minute rl2) \<ge> perMinute
         then (Inl (Error ''Rate limit exceeded''), rl2)
         else (Inr (),
               rl2\<lparr>second := (second rl2)\<lparr>count := count (second rl2) + 1\<rparr>,
                   minute := (minute rl2)\<lparr>count := count (minute rl2) + 1\<rparr>\<rparr>))"

subsection \<open>The network and the tool-call result\<close>

text \<open>
  A request as \<^verbatim>\<open>fetch\<close> receives it; \<open>req_body\<close> is the value handed to
  \<^verbatim>\<open>JSON.stringify\<close>. All requests are \<^verbatim>\<open>POST\<close> with a JSON content type.
\<close>

record http_request =
  req_url :: string
  req_authorization :: string
  req_body :: jsval

text \<open>
  A response: \<open>resp_text\<close> and \<open>resp_json\<close> are what \<^verbatim>\<open>await response.text()\<close> and
  \<^verbatim>\<open>await response.json()\<close> produce, a thrown error or a value.
\<close>

record http_response =
  ok :: bool
  status :: nat
  statusText :: string
  resp_text :: "js_error + string"
  resp_json :: "js_error + jsval"

text \<open>
  What the program takes from its surroundings: the API key of the environment, \<^verbatim>\<open>fetch\<close>
  (which may throw) and \<^verbatim>\<open>JSON.stringify\<close>.
\<close>

record runtime =
  FIRE_CRAWL_API_KEY :: string
  fetch :: "http_request \<Rightarrow> js_error + http_response"
  JSON_stringify :: "jsval \<Rightarrow> string"

text \<open>
  The state a tool call can change: the rate limiter's counters, and the requests sent
  so far (kept to say which calls reach the network).
\<close>

record 'l world =
  limiter :: 'l
  sent :: "http_request list"

text \<open>The result \<^verbatim>\<open>{content: [{type, text}], isError}\<close>.\<close>

record content_block =
  c_type :: string
  c_text :: jsval

record tool_result =
  content :: "content_block list"
  isError :: bool

subsection \<open>The server of part\_000: scrape and batch\<close>

definition isFireCrawlScrapeArgs :: "jsval \<Rightarrow> bool" where
  "isFireCrawlScrapeArgs args \<longleftrightarrow>
     typeof_object args \<and> args \<noteq> JNull \<and> has_key ''url'' args \<and>
     typeof_string (member_js args ''url'')"

definition isFireCrawlBatchArgs :: "jsval \<Rightarrow> bool" where
  "isFireCrawlBatchArgs args \<longleftrightarrow>
     typeof_object args \<and> args \<noteq> JNull \<and> has_key ''urls'' args \<and>
     isArray (member_js args ''urls'')"

text \<open>The message of the error thrown on a response that is not \<^verbatim>\<open>ok\<close>.\<close>

definition api_error_message :: "http_response \<Rightarrow> string \<Rightarrow> string" where
  "api_error_message response body =
     ''FireCrawl API error: '' @ show_nat (status response) @ '' '' @ statusText response
       @ [CHR 0x0A] @ body"

definition performSingleScrape ::
  "runtime \<Rightarrow> int \<Rightarrow> jsval \<Rightarrow> (string \<times> jsval) list \<Rightarrow> string \<Rightarrow> rateLimits world
     \<Rightarrow> (js_error + jsval) \<times> rateLimits world" where
  "performSingleScrape rt now url options apiKey w =
     (case checkRateLimit_part0 now (limiter w) of
        (Inl e, rl) \<Rightarrow> (Inl e, w\<lparr>limiter := rl\<rparr>)
      | (Inr u, rl) \<Rightarrow>
          (let req = \<lparr>req_url = ''https://api.firecrawl.dev/scrape'',
                      req_authorization = ''Bearer '' @ apiKey,
                      req_body = JObj ((''url'', url) # options)\<rparr>;
               w' = w\<lparr>limiter := rl, sent := sent w @ [req]\<rparr>
           in case fetch rt req of
                Inl e \<Rightarrow> (Inl e, w')
              | Inr response \<Rightarrow>
                  if \<not> ok response then
                    (case resp_text response of
                       Inl e \<Rightarrow> (Inl e, w')
                     | Inr body \<Rightarrow> (Inl (Error (api_error_message response body)), w'))
                  else (resp_json response, w')))"

definition performBatchScrape ::
  "runtime \<Rightarrow> int \<Rightarrow> jsval \<Rightarrow> jsval \<Rightarrow> string \<Rightarrow> rateLimits world
     \<Rightarrow> (js_error + jsval) \<times> rateLimits world" where
  "performBatchScrape rt now urls options apiKey w =
     (case checkRateLimit_part0 now (limiter w) of
        (Inl e, rl) \<Rightarrow> (Inl e, w\<lparr>limiter := rl\<rparr>)
      | (Inr u, rl) \<Rightarrow>
          (let req = \<lparr>req_url = ''https://api.firecrawl.dev/scrape/batch'',
                      req_authorization = ''Bearer '' @ apiKey,
                      req_body = JObj [(''urls'', urls), (''options'', options)]\<rparr>;
               w' = w\<lparr>limiter := rl, sent := sent w @ [req]\<rparr>
           in case fetch rt req of
                Inl e \<Rightarrow> (Inl e, w')
              | Inr response \<Rightarrow>
                  if \<not> ok response then
                    (case resp_text response of
                       Inl e \<Rightarrow> (Inl e, w')
                     | Inr body \<Rightarrow> (Inl (Error (api_error_message response body)), w'))
                  else (resp_json response, w')))"

text \<open>
  \<^verbatim>\<open>xs.map(r => r.markdown)\<close>: the first element that is \<^verbatim>\<open>null\<close> or \<^verbatim>\<open>undefined\<close> makes
  the callback throw.
\<close>

fun map_markdown :: "jsval list \<Rightarrow> js_error + jsval list" where
  "map_markdown [] = Inr []"
| "map_markdown (r # rs) =
     (case getProp r ''markdown'' of
        Inl e \<Rightarrow> Inl e
      | Inr m \<Rightarrow> (case map_markdown rs of Inl e \<Rightarrow> Inl e | Inr ms \<Rightarrow> Inr (m # ms)))"

text \<open>
  \<^verbatim>\<open>result.results.map(r => r.markdown).join("\n\n")\<close>: \<^verbatim>\<open>result\<close> or \<^verbatim>\<open>result.results\<close>
  may be \<^verbatim>\<open>null\<close> or \<^verbatim>\<open>undefined\<close>, and only an array has \<^verbatim>\<open>map\<close>.
\<close>

definition batch_text :: "jsval \<Rightarrow> js_error + string" where
  "batch_text result =
     (case getProp result ''results'' of
        Inl e \<Rightarrow> Inl e
      | Inr JUndefined \<Rightarrow> Inl (Error (''Cannot read properties of undefined (reading '' @ [CHR 0x27] @ ''map'' @ [CHR 0x27] @ '')''))
      | Inr JNull \<Rightarrow> Inl (Error (''Cannot read properties of null (reading '' @ [CHR 0x27] @ ''map'' @ [CHR 0x27] @ '')''))
      | Inr (JArr rs) \<Rightarrow>
          (case map_markdown rs of
             Inl e \<Rightarrow> Inl e
           | Inr ms \<Rightarrow> Inr (join_js [CHR 0x0A, CHR 0x0A] ms))
      | Inr v \<Rightarrow> Inl (Error ''result.results.map is not a function''))"

definition error_result :: "string \<Rightarrow> tool_result" where
  "error_result msg = \<lparr>content = [\<lparr>c_type = ''text'', c_text = JStr msg\<rparr>], isError = True\<rparr>"

text \<open>
  The \<^verbatim>\<open>CallToolRequestSchema\<close> handler of part\_000. Nothing between the outer
  \<^verbatim>\<open>try\<close> and the inner ones throws, so the outer \<^verbatim>\<open>catch\<close> has no branch here.
\<close>

definition callTool_part0 ::
  "runtime \<Rightarrow> int \<Rightarrow> string \<Rightarrow> jsval \<Rightarrow> rateLimits world \<Rightarrow> tool_result \<times> rateLimits world" where
  "callTool_part0 rt now name args w =
     (if \<not> truthy args then (error_result ''Error: No arguments provided'', w)
      else if name = ''fire_crawl_scrape'' then
        (if \<not> isFireCrawlScrapeArgs args
         then (error_result ''Error: Invalid arguments for single scrape'', w)
         else
           (case performSingleScrape rt now (member_js args ''url'')
                   [(''parsePDF'', member_js args ''parsePDF''),
                    (''waitForSelector'', member_js args ''waitForSelector''),
                    (''javascript'', member_js args ''javascript''),
                    (''timeout'', member_js args ''timeout'')]
                   (FIRE_CRAWL_API_KEY rt) w of
              (Inl err, w') \<Rightarrow> (error_result (''Error: '' @ message err), w')
            | (Inr result, w') \<Rightarrow>
                (case getProp result ''markdown'' of
                   Inl err \<Rightarrow> (error_result (''Error: '' @ message err), w')
                 | Inr md \<Rightarrow>
                     (\<lparr>content = [\<lparr>c_type = ''text'', c_text = md\<rparr>], isError = False\<rparr>, w'))))
      else if name = ''fire_crawl_batch'' then
        (if \<not> isFireCrawlBatchArgs args
         then (error_result ''Error: Invalid arguments for batch scrape'', w)
         else
           (case performBatchScrape rt now (member_js args ''urls'') (member_js args ''options'')
                   (FIRE_CRAWL_API_KEY rt) w of
              (Inl err, w') \<Rightarrow> (error_result (''Error: '' @ message err), w')
            | (Inr result, w') \<Rightarrow>
                (case batch_text result of
                   Inl err \<Rightarrow> (error_result (''Error: '' @ message err), w')
                 | Inr t \<Rightarrow>
                     (\<lparr>content = [\<lparr>c_type = ''text'', c_text = JStr t\<rparr>], isError = False\<rparr>, w'))))
      else (error_result ''Error: Unknown tool'', w))"

subsection \<open>The server of index.ts: scrape, map and crawl\<close>

definition isScrapeOptions :: "jsval \<Rightarrow> bool" where
  "isScrapeOptions args \<longleftrightarrow>
     typeof_object args \<and> args \<noteq> JNull \<and> has_key ''url'' args \<and>
     typeof_string (member_js args ''url'')"

definition isMapOptions :: "jsval \<Rightarrow> bool" where
  "isMapOptions args \<longleftrightarrow>
     typeof_object args \<and> args \<noteq> JNull \<and> has_key ''url'' args \<and>
     typeof_string (member_js args ''url'')"

definition isCrawlOptions :: "jsval \<Rightarrow> bool" where
  "isCrawlOptions args \<longleftrightarrow>
     typeof_object args \<and> args \<noteq> JNull \<and> has_key ''url'' args \<and>
     typeof_string (member_js args ''url'')"

text \<open>
  The part the three \<^verbatim>\<open>perform\<close> functions share: the rate check, the request, and on a
  response that is not \<^verbatim>\<open>ok\<close> the error built from the body read as JSON. What is
  returned on success is the body read as JSON, before any inspection.
\<close>

definition post_index ::
  "runtime \<Rightarrow> int \<Rightarrow> string \<Rightarrow> jsval \<Rightarrow> requestCount world
     \<Rightarrow> (js_error + jsval) \<times> requestCount world" where
  "post_index rt now endpoint options w =
     (case checkRateLimit_index now (limiter w) of
        (Inl e, rc) \<Rightarrow> (Inl e, w\<lparr>limiter := rc\<rparr>)
      | (Inr u, rc) \<Rightarrow>
          (let req = \<lparr>req_url = endpoint,
                      req_authorization = ''Bearer '' @ FIRE_CRAWL_API_KEY rt,
                      req_body = options\<rparr>;
               w' = w\<lparr>limiter := rc, sent := sent w @ [req]\<rparr>
           in case fetch rt req of
                Inl e \<Rightarrow> (Inl e, w')
              | Inr response \<Rightarrow>
                  if \<not> ok response then
                    (case resp_json response of
                       Inl e \<Rightarrow> (Inl e, w')
                     | Inr errorData \<Rightarrow>
                         (Inl (Error (api_error_message response (JSON_stringify rt errorData))), w'))
                  else (resp_json response, w')))"

text \<open>\<^verbatim>\<open>a || b\<close>.\<close>

definition js_or :: "jsval \<Rightarrow> jsval \<Rightarrow> jsval" where
  "js_or a b = (if truthy a then a else b)"

text \<open>
  \<^verbatim>\<open>performScrape\<close> from the parsed body on: \<^verbatim>\<open>data.success\<close> throws on a body that is
  \<^verbatim>\<open>null\<close>, and \<^verbatim>\<open>content.trim()\<close> throws on a truthy value that is not a string.
\<close>

definition scrape_content :: "jsval \<Rightarrow> js_error + string" where
  "scrape_content data =
     (case getProp data ''success'' of
        Inl e \<Rightarrow> Inl e
      | Inr success \<Rightarrow>
          if \<not> truthy success \<or> \<not> truthy (member_js data ''data'')
          then Inl (Error ''Invalid response from FireCrawl API'')
          else
            (let d = member_js data ''data'';
                 content = js_or (js_or (member_js d ''markdown'') (member_js d ''html''))
                             (member_js d ''rawHtml'')
             in if \<not> truthy content
                then Inl (Error ''No content received from FireCrawl API'')
                else (case content of
                        JStr s \<Rightarrow> Inr (trim s)
                      | _ \<Rightarrow> Inl (Error ''content.trim is not a function''))))"

definition performScrape ::
  "runtime \<Rightarrow> int \<Rightarrow> jsval \<Rightarrow> requestCount world \<Rightarrow> (js_error + string) \<times> requestCount world" where
  "performScrape rt now options w =
     (case post_index rt now ''https://api.firecrawl.dev/v1/scrape'' options w of
        (Inl e, w') \<Rightarrow> (Inl e, w')
      | (Inr data, w') \<Rightarrow> (scrape_content data, w'))"

definition map_links :: "jsval \<Rightarrow> js_error + jsval" where
  "map_links data =
     (case getProp data ''success'' of
        Inl e \<Rightarrow> Inl e
      | Inr success \<Rightarrow>
          if \<not> truthy success \<or> \<not> truthy (member_js data ''links'')
          then Inl (Error ''Invalid response from FireCrawl API'')
          else Inr (member_js data ''links''))"

definition performMap ::
  "runtime \<Rightarrow> int \<Rightarrow> jsval \<Rightarrow> requestCount world \<Rightarrow> (js_error + jsval) \<times> requestCount world" where
  "performMap rt now options w =
     (case post_index rt now ''https://api.firecrawl.dev/v1/map'' options w of
        (Inl e, w') \<Rightarrow> (Inl e, w')
      | (Inr data, w') \<Rightarrow> (map_links data, w'))"

definition crawl_started :: "jsval \<Rightarrow> js_error + string" where
  "crawl_started data =
     (case getProp data ''success'' of
        Inl e \<Rightarrow> Inl e
      | Inr success \<Rightarrow>
          if \<not> truthy success \<or> \<not> truthy (member_js data ''id'')
          then Inl (Error ''Invalid response from FireCrawl API'')
          else Inr (''Started crawl '' @ toString_js (member_js data ''id'') @ '' for ''
                      @ toString_js (member_js data ''url'')))"

definition performCrawl ::
  "runtime \<Rightarrow> int \<Rightarrow> jsval \<Rightarrow> requestCount world \<Rightarrow> (js_error + string) \<times> requestCount world" where
  "performCrawl rt now options w =
     (case post_index rt now ''https://api.firecrawl.dev/v1/crawl'' options w of
        (Inl e, w') \<Rightarrow> (Inl e, w')
      | (Inr data, w') \<Rightarrow> (crawl_started data, w'))"

definition text_result :: "string \<Rightarrow> tool_result" where
  "text_result t = \<lparr>content = [\<lparr>c_type = ''text'', c_text = JStr t\<rparr>], isError = False\<rparr>"

text \<open>
  The body of the handler's \<^verbatim>\<open>try\<close>: \<open>Inl\<close> is a throw, \<open>Inr\<close> a \<^verbatim>\<open>return\<close>. The
  \<^verbatim>\<open>default\<close> branch returns its error result itself. \<^verbatim>\<open>links.join\<close> exists on an array
  only.
\<close>

definition callTool_try_index ::
  "runtime \<Rightarrow> int \<Rightarrow> string \<Rightarrow> jsval \<Rightarrow> requestCount world
     \<Rightarrow> (js_error + tool_result) \<times> requestCount world" where
  "callTool_try_index rt now name args w =
     (if \<not> truthy args then (Inl (Error ''No arguments provided''), w)
      else if name = ''fire_crawl_scrape'' then
        (if \<not> isScrapeOptions args
         then (Inl (Error ''Invalid arguments for fire_crawl_scrape''), w)
         else (case performScrape rt now args w of
                 (Inl e, w') \<Rightarrow> (Inl e, w')
               | (Inr scraped, w') \<Rightarrow> (Inr (text_result scraped), w')))
      else if name = ''fire_crawl_map'' then
        (if \<not> isMapOptions args
         then (Inl (Error ''Invalid arguments for fire_crawl_map''), w)
         else (case performMap rt now args w of
                 (Inl e, w') \<Rightarrow> (Inl e, w')
               | (Inr (JArr links), w') \<Rightarrow> (Inr (text_result (join_js [CHR 0x0A] links)), w')
               | (Inr v, w') \<Rightarrow> (Inl (Error ''links.join is not a function''), w')))
      else if name = ''fire_crawl_crawl'' then
        (if \<not> isCrawlOptions args
         then (Inl (Error ''Invalid arguments for fire_crawl_crawl''), w)
         else (case performCrawl rt now args w of
                 (Inl e, w') \<Rightarrow> (Inl e, w')
               | (Inr result, w') \<Rightarrow> (Inr (text_result result), w')))
      else (Inr \<lparr>content = [\<lparr>c_type = ''text'', c_text = JStr (''Unknown tool: '' @ name)\<rparr>],
                 isError = True\<rparr>, w))"

text \<open>The handler with its \<^verbatim>\<open>catch\<close>; every thrown value here is an \<^verbatim>\<open>Error\<close>.\<close>

definition callTool_index ::
  "runtime \<Rightarrow> int \<Rightarrow> string \<Rightarrow> jsval \<Rightarrow> requestCount world \<Rightarrow> tool_result \<times> requestCount world" where
  "callTool_index rt now name args w =
     (case callTool_try_index rt now name args w of
        (Inl error, w') \<Rightarrow> (error_result (''Error: '' @ message error), w')
      | (Inr r, w') \<Rightarrow> (r, w'))"

subsection \<open>Sequences of calls and the initial state\<close>

text \<open>
  Successive calls of \<^verbatim>\<open>checkRateLimit\<close>, one per clock reading of the list, each on the
  state the previous one left: the outcomes in order, and the final state.
\<close>

fun run_part0 :: "int list \<Rightarrow> rateLimits \<Rightarrow> (js_error + unit) list \<times> rateLimits" where
  "run_part0 [] rl = ([], rl)"
| "run_part0 (now # ts) rl =
     (case checkRateLimit_part0 now rl of
        (r, rl') \<Rightarrow> (case run_part0 ts rl' of (rs, rl'') \<Rightarrow> (r # rs, rl'')))"

fun run_index :: "int list \<Rightarrow> requestCount \<Rightarrow> (js_error + unit) list \<times> requestCount" where
  "run_index [] rc = ([], rc)"
| "run_index (now # ts) rc =
     (case checkRateLimit_index now rc of
        (r, rc') \<Rightarrow> (case run_index ts rc' of (rs, rc'') \<Rightarrow> (r # rs, rc'')))"

text \<open>The number of calls of a run that passed the check.\<close>

definition successes :: "(js_error + unit) list \<Rightarrow> nat" where
  "successes rs = length (filter (\<lambda>r. r = Inr ()) rs)"

text \<open>
  The initial values of \<^verbatim>\<open>rateLimits\<close> and \<^verbatim>\<open>requestCount\<close>, with \<open>t0\<close> the clock at
  module load, and the worlds that start from them with nothing sent.
\<close>

definition initial_rateLimits :: "int \<Rightarrow> rateLimits" where
  "initial_rateLimits t0 =
     \<lparr>second = \<lparr>count = 0, lastReset = t0\<rparr>, minute = \<lparr>count = 0, lastReset = t0\<rparr>\<rparr>"

definition initial_requestCount :: "int \<Rightarrow> requestCount" where
  "initial_requestCount t0 = \<lparr>rc_second = 0, rc_minute = 0, rc_lastReset = t0\<rparr>"

definition start_part0 :: "int \<Rightarrow> rateLimits world" where
  "start_part0 t0 = \<lparr>limiter = initial_rateLimits t0, sent = []\<rparr>"

definition start_index :: "int \<Rightarrow> requestCount world" where
  "start_index t0 = \<lparr>limiter = initial_requestCount t0, sent = []\<rparr>"

subsection \<open>Example surroundings\<close>

text \<open>
  Responses as the repository's tests mock them: a JSON answer is an object with \<^verbatim>\<open>ok\<close>
  and a \<^verbatim>\<open>json\<close> method only, a failure an object with \<^verbatim>\<open>ok\<close>, \<^verbatim>\<open>status\<close>,
  \<^verbatim>\<open>statusText\<close> and a \<^verbatim>\<open>text\<close> method only; calling the method that is missing throws.
\<close>

definition json_reply :: "jsval \<Rightarrow> http_response" where
  "json_reply v =
     \<lparr>ok = True, status = 200, statusText = ''OK'',
      resp_text = Inl (Error ''response.text is not a function''), resp_json = Inr v\<rparr>"

definition failure_reply :: "nat \<Rightarrow> string \<Rightarrow> string \<Rightarrow> http_response" where
  "failure_reply code reason body =
     \<lparr>ok = False, status = code, statusText = reason,
      resp_text = Inr body, resp_json = Inl (Error ''response.json is not a function'')\<rparr>"

text \<open>A failure whose body is the JSON text \<^verbatim>\<open>{}\<close>.\<close>

definition failure_json_reply :: "nat \<Rightarrow> string \<Rightarrow> http_response" where
  "failure_json_reply code reason =
     \<lparr>ok = False, status = code, statusText = reason,
      resp_text = Inr ''{}'', resp_json = Inr (JObj [])\<rparr>"

text \<open>
  Surroundings in which every request is answered by \<open>r\<close>. Of \<^verbatim>\<open>JSON.stringify\<close> the
  examples use the value at the empty object only.
\<close>

definition serving :: "http_response \<Rightarrow> runtime" where
  "serving r =
     \<lparr>FIRE_CRAWL_API_KEY = ''test-api-key'', fetch = (\<lambda>req. Inr r),
      JSON_stringify = (\<lambda>v. ''{}'')\<rparr>"

definition example_args :: jsval where
  "example_args = JObj [(''url'', JStr ''https://example.com'')]"

text \<open>The payloads of the scenarios: a scrape answer and a batch answer of two results.\<close>

definition example_payload :: jsval where
  "example_payload =
     JObj [(''success'', JBool True),
           (''data'', JObj [(''markdown'', JStr ''# Example''),
                            (''metadata'', JObj [(''sourceURL'', JStr ''https://example.com''),
                                                 (''statusCode'', JNum 200)])])]"

definition example_batch :: "jsval \<Rightarrow> jsval" where
  "example_batch failed =
     JObj [(''results'', JArr [JObj [(''url'', JStr ''https://example1.com''), (''markdown'', JStr ''A'')],
                               JObj [(''url'', JStr ''https://example2.com''), (''markdown'', JStr ''B'')]]),
           (''failed'', failed)]"

definition example_batch_args :: jsval where
  "example_batch_args = JObj [(''urls'', JArr [JStr ''https://example1.com'', JStr ''https://example2.com''])]"

section \<open>Properties\<close>

lemmas rateLimit_part0_defs =
  checkRateLimit_part0_def resetSecond_part0_def resetMinute_part0_def perSecond_def perMinute_def

lemmas rateLimit_index_defs =
  checkRateLimit_index_def resetSecond_index_def resetMinute_index_def perSecond_def perMinute_def

subsection \<open>Window resets\<close>

text \<open>
  In part\_000 each window is reset on its own clock: a call made more than the window's
  length after the window's start finds that window at count zero, started now, when
  the ceilings are compared.
\<close>

lemma checkRateLimit_part0_resets:
  "(now - lastReset (second rl) > 1000 \<longrightarrow>
      second (resetMinute_part0 now (resetSecond_part0 now rl)) = \<lparr>count = 0, lastReset = now\<rparr>)
   \<and> (now - lastReset (minute rl) > 60000 \<longrightarrow>
      minute (resetMinute_part0 now (resetSecond_part0 now rl)) = \<lparr>count = 0, lastReset = now\<rparr>)"
  by (simp add: rateLimit_part0_defs)

text \<open>
  In index.ts the minute test reads the \<^verbatim>\<open>lastReset\<close> that the second-window reset has
  just set to \<open>now\<close>, so it never fires, and the minute counter never goes down.
\<close>

lemma resetMinute_index_never_fires:
  "resetMinute_index now (resetSecond_index now rc) = resetSecond_index now rc"
  by (simp add: rateLimit_index_defs)

lemma rc_minute_never_decreases:
  "rc_minute rc \<le> rc_minute (snd (checkRateLimit_index now rc))"
  by (simp add: rateLimit_index_defs Let_def)

lemma rc_minute_lockout:
  "60 \<le> rc_minute rc \<Longrightarrow>
     fst (checkRateLimit_index now rc) = Inl (Error ''Rate limit exceeded'') \<and>
     rc_minute (snd (checkRateLimit_index now rc)) = rc_minute rc"
  by (simp add: rateLimit_index_defs Let_def)

text \<open>
  C1. The claim: on every call, a window whose start lies more than its length back is
  reset (count zero, start now) before the ceilings are compared; in particular the
  minute counter is reset once more than 60000 ms have passed since the minute window
  began. In index.ts, a first call at time 0 and a second one 60001 ms later leave the
  minute counter at 2: the second call reset the second counter only, where the claim
  has the minute counter reset to zero and then counted up to 1.
\<close>

theorem run_index_minute_not_reset:
  "run_index [0, 60001] (initial_requestCount 0) =
     ([Inr (), Inr ()], \<lparr>rc_second = 1, rc_minute = 2, rc_lastReset = 60001\<rparr>)"
  by (simp add: rateLimit_index_defs initial_requestCount_def)

text \<open>The same two calls in part\_000: the second one starts both windows afresh.\<close>

lemma run_part0_minute_reset:
  "run_part0 [0, 60001] (initial_rateLimits 0) =
     ([Inr (), Inr ()],
      \<lparr>second = \<lparr>count = 1, lastReset = 60001\<rparr>, minute = \<lparr>count = 1, lastReset = 60001\<rparr>\<rparr>)"
  by (simp add: rateLimit_part0_defs initial_rateLimits_def)

subsection \<open>Ceilings and windows\<close>

lemma successes_Nil: "successes [] = 0"
  by (simp add: successes_def)

lemma successes_Cons: "successes (r # rs) = (if r = Inr () then 1 else 0) + successes rs"
  by (simp add: successes_def)

text \<open>A call either passes or throws the one error of the limiter.\<close>

lemma checkRateLimit_outcome:
  "fst (checkRateLimit_part0 now rl) = Inr () \<or>
   fst (checkRateLimit_part0 now rl) = Inl (Error ''Rate limit exceeded'')"
  by (simp add: rateLimit_part0_defs Let_def)

text \<open>
  The second window of part\_000. A call within the window leaves its start alone and
  adds one to its count exactly when it passes; over a run of such calls the count is the
  number of calls that passed, and it never exceeds the ceiling.
\<close>

lemma second_part0_step:
  assumes "now - lastReset (second rl) \<le> 1000"
  shows "lastReset (second (snd (checkRateLimit_part0 now rl))) = lastReset (second rl)"
    and "count (second (snd (checkRateLimit_part0 now rl))) =
           count (second rl) + (if fst (checkRateLimit_part0 now rl) = Inr () then 1 else 0)"
    and "count (second rl) \<le> 2 \<Longrightarrow> count (second (snd (checkRateLimit_part0 now rl))) \<le> 2"
  using assms by (auto simp add: rateLimit_part0_defs Let_def)

lemma second_part0_run:
  assumes "\<forall>t\<in>set ts. t - lastReset (second rl) \<le> 1000" and "count (second rl) \<le> 2"
  shows "lastReset (second (snd (run_part0 ts rl))) = lastReset (second rl) \<and>
         count (second (snd (run_part0 ts rl))) = count (second rl) + successes (fst (run_part0 ts rl)) \<and>
         count (second (snd (run_part0 ts rl))) \<le> 2"
  using assms
proof (induction ts arbitrary: rl)
  case Nil
  then show ?case by (simp add: successes_Nil)
next
  case (Cons t ts)
  obtain r rl' where step: "checkRateLimit_part0 t rl = (r, rl')"
    by (cases "checkRateLimit_part0 t rl")
  have t: "t - lastReset (second rl) \<le> 1000" using Cons.prems by simp
  have l: "lastReset (second rl') = lastReset (second rl)"
    using second_part0_step(1) [OF t] step by simp
  have c: "count (second rl') = count (second rl) + (if r = Inr () then 1 else 0)"
    using second_part0_step(2) [OF t] step by simp
  have b: "count (second rl') \<le> 2"
    using second_part0_step(3) [OF t] Cons.prems(2) step by simp
  have "\<forall>t\<in>set ts. t - lastReset (second rl') \<le> 1000" using Cons.prems l by simp
  from Cons.IH [OF this b] show ?case using step l c
    by (auto simp add: successes_Cons split: prod.splits)
qed

lemma second_part0_next:
  "t - lastReset (second rl) \<le> 1000 \<Longrightarrow> count (second rl) < 2 \<Longrightarrow>
     count (minute (resetMinute_part0 t rl)) < 60 \<Longrightarrow> fst (checkRateLimit_part0 t rl) = Inr ()"
  "t - lastReset (second rl) \<le> 1000 \<Longrightarrow> count (second rl) = 2 \<Longrightarrow>
     fst (checkRateLimit_part0 t rl) = Inl (Error ''Rate limit exceeded'')"
  "t - lastReset (second rl) > 1000 \<Longrightarrow> count (minute (resetMinute_part0 t rl)) < 60 \<Longrightarrow>
     fst (checkRateLimit_part0 t rl) = Inr () \<and>
     second (snd (checkRateLimit_part0 t rl)) = \<lparr>count = 1, lastReset = t\<rparr>"
  by (auto simp add: rateLimit_part0_defs Let_def)

lemma second_window_part0:
  assumes "count (second rl) = 0" and "\<forall>t\<in>set ts. t - lastReset (second rl) \<le> 1000"
  shows "(let rl' = snd (run_part0 ts rl); k = successes (fst (run_part0 ts rl)) in
     k \<le> 2 \<and> count (second rl') = k \<and> lastReset (second rl') = lastReset (second rl) \<and>
     (\<forall>t. t - lastReset (second rl) \<le> 1000 \<and> k < 2 \<and> count (minute (resetMinute_part0 t rl')) < 60
          \<longrightarrow> fst (checkRateLimit_part0 t rl') = Inr ()) \<and>
     (\<forall>t. t - lastReset (second rl) \<le> 1000 \<and> k = 2
          \<longrightarrow> fst (checkRateLimit_part0 t rl') = Inl (Error ''Rate limit exceeded'')) \<and>
     (\<forall>t. t - lastReset (second rl) > 1000 \<and> count (minute (resetMinute_part0 t rl')) < 60
          \<longrightarrow> fst (checkRateLimit_part0 t rl') = Inr () \<and>
              second (snd (checkRateLimit_part0 t rl')) = \<lparr>count = 1, lastReset = t\<rparr>))"
proof -
  have inv: "lastReset (second (snd (run_part0 ts rl))) = lastReset (second rl)"
       "count (second (snd (run_part0 ts rl))) = successes (fst (run_part0 ts rl))"
       "count (second (snd (run_part0 ts rl))) \<le> 2"
    using second_part0_run [OF assms(2)] assms(1) by simp_all
  show ?thesis
    unfolding Let_def using inv second_part0_next [of _ "snd (run_part0 ts rl)"]
    by auto
qed


text \<open>The minute window of part\_000, in the same way.\<close>

lemma minute_part0_step:
  assumes "now - lastReset (minute rl) \<le> 60000"
  shows "lastReset (minute (snd (checkRateLimit_part0 now rl))) = lastReset (minute rl)"
    and "count (minute (snd (checkRateLimit_part0 now rl))) =
           count (minute rl) + (if fst (checkRateLimit_part0 now rl) = Inr () then 1 else 0)"
    and "count (minute rl) \<le> 60 \<Longrightarrow> count (minute (snd (checkRateLimit_part0 now rl))) \<le> 60"
  using assms by (auto simp add: rateLimit_part0_defs Let_def)

lemma minute_part0_run:
  assumes "\<forall>t\<in>set ts. t - lastReset (minute rl) \<le> 60000" and "count (minute rl) \<le> 60"
  shows "lastReset (minute (snd (run_part0 ts rl))) = lastReset (minute rl) \<and>
         count (minute (snd (run_part0 ts rl))) = count (minute rl) + successes (fst (run_part0 ts rl)) \<and>
         count (minute (snd (run_part0 ts rl))) \<le> 60"
  using assms
proof (induction ts arbitrary: rl)
  case Nil
  then show ?case by (simp add: successes_Nil)
next
  case (Cons t ts)
  obtain r rl' where step: "checkRateLimit_part0 t rl = (r, rl')"
    by (cases "checkRateLimit_part0 t rl")
  have t: "t - lastReset (minute rl) \<le> 60000" using Cons.prems by simp
  have l: "lastReset (minute rl') = lastReset (minute rl)"
    using minute_part0_step(1) [OF t] step by simp
  have c: "count (minute rl') = count (minute rl) + (if r = Inr () then 1 else 0)"
    using minute_part0_step(2) [OF t] step by simp
  have b: "count (minute rl') \<le> 60"
    using minute_part0_step(3) [OF t] Cons.prems(2) step by simp
  have "\<forall>t\<in>set ts. t - lastReset (minute rl') \<le> 60000" using Cons.prems l by simp
  from Cons.IH [OF this b] show ?case using step l c
    by (auto simp add: successes_Cons split: prod.splits)
qed

lemma minute_part0_next:
  "t - lastReset (minute rl) \<le> 60000 \<Longrightarrow> count (minute rl) < 60 \<Longrightarrow>
     count (second (resetSecond_part0 t rl)) < 2 \<Longrightarrow> fst (checkRateLimit_part0 t rl) = Inr ()"
  "t - lastReset (minute rl) \<le> 60000 \<Longrightarrow> count (minute rl) = 60 \<Longrightarrow>
     fst (checkRateLimit_part0 t rl) = Inl (Error ''Rate limit exceeded'')"
  "t - lastReset (minute rl) > 60000 \<Longrightarrow> count (second (resetSecond_part0 t rl)) < 2 \<Longrightarrow>
     fst (checkRateLimit_part0 t rl) = Inr () \<and>
     minute (snd (checkRateLimit_part0 t rl)) = \<lparr>count = 1, lastReset = t\<rparr>"
  by (auto simp add: rateLimit_part0_defs Let_def)

lemma minute_window_part0:
  assumes "count (minute rl) = 0" and "\<forall>t\<in>set ts. t - lastReset (minute rl) \<le> 60000"
  shows "(let rl' = snd (run_part0 ts rl); k = successes (fst (run_part0 ts rl)) in
     k \<le> 60 \<and> count (minute rl') = k \<and> lastReset (minute rl') = lastReset (minute rl) \<and>
     (\<forall>t. t - lastReset (minute rl) \<le> 60000 \<and> k < 60 \<and> count (second (resetSecond_part0 t rl')) < 2
          \<longrightarrow> fst (checkRateLimit_part0 t rl') = Inr ()) \<and>
     (\<forall>t. t - lastReset (minute rl) \<le> 60000 \<and> k = 60
          \<longrightarrow> fst (checkRateLimit_part0 t rl') = Inl (Error ''Rate limit exceeded'')) \<and>
     (\<forall>t. t - lastReset (minute rl) > 60000 \<and> count (second (resetSecond_part0 t rl')) < 2
          \<longrightarrow> fst (checkRateLimit_part0 t rl') = Inr () \<and>
              minute (snd (checkRateLimit_part0 t rl')) = \<lparr>count = 1, lastReset = t\<rparr>))"
proof -
  have inv: "lastReset (minute (snd (run_part0 ts rl))) = lastReset (minute rl)"
       "count (minute (snd (run_part0 ts rl))) = successes (fst (run_part0 ts rl))"
       "count (minute (snd (run_part0 ts rl))) \<le> 60"
    using minute_part0_run [OF assms(2)] assms(1) by simp_all
  show ?thesis
    unfolding Let_def using inv minute_part0_next [of _ "snd (run_part0 ts rl)"]
    by auto
qed

text \<open>
  The second window of index.ts, which starts at the shared \<^verbatim>\<open>lastReset\<close>. The minute
  counter of index.ts has no window of its own and is not described here.
\<close>

lemma second_index_step:
  assumes "now - rc_lastReset rc \<le> 1000"
  shows "rc_lastReset (snd (checkRateLimit_index now rc)) = rc_lastReset rc"
    and "rc_second (snd (checkRateLimit_index now rc)) =
           rc_second rc + (if fst (checkRateLimit_index now rc) = Inr () then 1 else 0)"
    and "rc_second rc \<le> 2 \<Longrightarrow> rc_second (snd (checkRateLimit_index now rc)) \<le> 2"
  using assms by (auto simp add: rateLimit_index_defs Let_def)

lemma second_index_run:
  assumes "\<forall>t\<in>set ts. t - rc_lastReset rc \<le> 1000" and "rc_second rc \<le> 2"
  shows "rc_lastReset (snd (run_index ts rc)) = rc_lastReset rc \<and>
         rc_second (snd (run_index ts rc)) = rc_second rc + successes (fst (run_index ts rc)) \<and>
         rc_second (snd (run_index ts rc)) \<le> 2"
  using assms
proof (induction ts arbitrary: rc)
  case Nil
  then show ?case by (simp add: successes_Nil)
next
  case (Cons t ts)
  obtain r rc' where step: "checkRateLimit_index t rc = (r, rc')"
    by (cases "checkRateLimit_index t rc")
  have t: "t - rc_lastReset rc \<le> 1000" using Cons.prems by simp
  have l: "rc_lastReset rc' = rc_lastReset rc"
    using second_index_step(1) [OF t] step by simp
  have c: "rc_second rc' = rc_second rc + (if r = Inr () then 1 else 0)"
    using second_index_step(2) [OF t] step by simp
  have b: "rc_second rc' \<le> 2"
    using second_index_step(3) [OF t] Cons.prems(2) step by simp
  have "\<forall>t\<in>set ts. t - rc_lastReset rc' \<le> 1000" using Cons.prems l by simp
  from Cons.IH [OF this b] show ?case using step l c
    by (auto simp add: successes_Cons split: prod.splits)
qed

lemma second_index_next:
  "t - rc_lastReset rc \<le> 1000 \<Longrightarrow> rc_second rc < 2 \<Longrightarrow> rc_minute rc < 60 \<Longrightarrow>
     fst (checkRateLimit_index t rc) = Inr ()"
  "t - rc_lastReset rc \<le> 1000 \<Longrightarrow> rc_second rc = 2 \<Longrightarrow>
     fst (checkRateLimit_index t rc) = Inl (Error ''Rate limit exceeded'')"
  "t - rc_lastReset rc > 1000 \<Longrightarrow> rc_minute rc < 60 \<Longrightarrow>
     fst (checkRateLimit_index t rc) = Inr () \<and>
     rc_second (snd (checkRateLimit_index t rc)) = 1 \<and>
     rc_lastReset (snd (checkRateLimit_index t rc)) = t"
  by (auto simp add: rateLimit_index_defs Let_def)

lemma second_window_index:
  assumes "rc_second rc = 0" and "\<forall>t\<in>set ts. t - rc_lastReset rc \<le> 1000"
  shows "(let rc' = snd (run_index ts rc); k = successes (fst (run_index ts rc)) in
     k \<le> 2 \<and> rc_second rc' = k \<and> rc_lastReset rc' = rc_lastReset rc \<and>
     (\<forall>t. t - rc_lastReset rc \<le> 1000 \<and> k < 2 \<and> rc_minute rc' < 60
          \<longrightarrow> fst (checkRateLimit_index t rc') = Inr ()) \<and>
     (\<forall>t. t - rc_lastReset rc \<le> 1000 \<and> k = 2
          \<longrightarrow> fst (checkRateLimit_index t rc') = Inl (Error ''Rate limit exceeded'')) \<and>
     (\<forall>t. t - rc_lastReset rc > 1000 \<and> rc_minute rc' < 60
          \<longrightarrow> fst (checkRateLimit_index t rc') = Inr () \<and>
              rc_second (snd (checkRateLimit_index t rc')) = 1 \<and>
              rc_lastReset (snd (checkRateLimit_index t rc')) = t))"
proof -
  have inv: "rc_lastReset (snd (run_index ts rc)) = rc_lastReset rc"
       "rc_second (snd (run_index ts rc)) = successes (fst (run_index ts rc))"
       "rc_second (snd (run_index ts rc)) \<le> 2"
    using second_index_run [OF assms(2)] assms(1) by simp_all
  show ?thesis
    unfolding Let_def using inv second_index_next [of _ "snd (run_index ts rc)"]
    by auto
qed

text \<open>One call, with the ceilings written out.\<close>

lemma checkRateLimit_part0_step:
  "checkRateLimit_part0 now rl =
     (let rl' = resetMinute_part0 now (resetSecond_part0 now rl) in
      if 2 \<le> count (second rl') \<or> 60 \<le> count (minute rl')
      then (Inl (Error ''Rate limit exceeded''), rl')
      else (Inr (), rl'\<lparr>second := (second rl')\<lparr>count := count (second rl') + 1\<rparr>,
                       minute := (minute rl')\<lparr>count := count (minute rl') + 1\<rparr>\<rparr>))"
  by (simp add: checkRateLimit_part0_def perSecond_def perMinute_def Let_def)

lemma checkRateLimit_index_step:
  "checkRateLimit_index now rc =
     (let rc' = resetMinute_index now (resetSecond_index now rc) in
      if 2 \<le> rc_second rc' \<or> 60 \<le> rc_minute rc'
      then (Inl (Error ''Rate limit exceeded''), rc')
      else (Inr (), rc'\<lparr>rc_second := rc_second rc' + 1, rc_minute := rc_minute rc' + 1\<rparr>))"
  by (simp add: checkRateLimit_index_def perSecond_def perMinute_def Let_def)

text \<open>
  C3, as stated, fails on part\_000. Three calls at the same instant, from the initial
  state: the third is refused although the minute window, with ceiling 60, has taken two
  calls only. And two calls at time 0 followed by one at time 1000: the window length has
  elapsed from the window's start, but the test is \<^verbatim>\<open>now - lastReset > 1000\<close>, so nothing
  is reset and the call is refused.
\<close>

theorem window_quota_counterexample:
  "fst (run_part0 [0, 0, 0] (initial_rateLimits 0)) =
     [Inr (), Inr (), Inl (Error ''Rate limit exceeded'')] \<and>
   fst (run_part0 [0, 0, 1000] (initial_rateLimits 0)) =
     [Inr (), Inr (), Inl (Error ''Rate limit exceeded'')]"
  by (simp add: rateLimit_part0_defs initial_rateLimits_def)


text \<open>
  C3, amended. One call: after the window resets, if either counter has reached its
  ceiling (2 and 60) the call throws \<^verbatim>\<open>Rate limit exceeded\<close> and the counters stay as the
  resets left them; otherwise both counters go up by one and the call passes. A window:
  starting from a window with count zero, over any run of calls no later than the window's
  length after its start, the window's count is the number \<open>k\<close> of calls that passed and
  \<open>k\<close> is at most the ceiling \<open>N\<close>; a further call within the window passes when
  \<open>k < N\<close> and the other counter, after its own reset, is below its ceiling, and is
  refused when \<open>k = N\<close>; a call made more than the window's length after its start
  passes when the other counter, after its own reset, is below its ceiling, and starts
  the window afresh with count one. This holds of both windows of part\_000 and of the
  second window of index.ts.
\<close>

theorem rate_limit_windows:
  "checkRateLimit_part0 now rl =
     (let rl' = resetMinute_part0 now (resetSecond_part0 now rl) in
      if 2 \<le> count (second rl') \<or> 60 \<le> count (minute rl')
      then (Inl (Error ''Rate limit exceeded''), rl')
      else (Inr (), rl'\<lparr>second := (second rl')\<lparr>count := count (second rl') + 1\<rparr>,
                       minute := (minute rl')\<lparr>count := count (minute rl') + 1\<rparr>\<rparr>))
   \<and> (count (second rl) = 0 \<and> (\<forall>t\<in>set ts. t - lastReset (second rl) \<le> 1000) \<longrightarrow>
       (let rl' = snd (run_part0 ts rl); k = successes (fst (run_part0 ts rl)) in
        k \<le> 2 \<and> count (second rl') = k \<and> lastReset (second rl') = lastReset (second rl) \<and>
        (\<forall>t. t - lastReset (second rl) \<le> 1000 \<and> k < 2 \<and>
              count (minute (resetMinute_part0 t rl')) < 60
            \<longrightarrow> fst (checkRateLimit_part0 t rl') = Inr ()) \<and>
        (\<forall>t. t - lastReset (second rl) \<le> 1000 \<and> k = 2
            \<longrightarrow> fst (checkRateLimit_part0 t rl') = Inl (Error ''Rate limit exceeded'')) \<and>
        (\<forall>t. t - lastReset (second rl) > 1000 \<and> count (minute (resetMinute_part0 t rl')) < 60
            \<longrightarrow> fst (checkRateLimit_part0 t rl') = Inr () \<and>
                second (snd (checkRateLimit_part0 t rl')) = \<lparr>count = 1, lastReset = t\<rparr>)))
   \<and> (count (minute rl) = 0 \<and> (\<forall>t\<in>set ts. t - lastReset (minute rl) \<le> 60000) \<longrightarrow>
       (let rl' = snd (run_part0 ts rl); k = successes (fst (run_part0 ts rl)) in
        k \<le> 60 \<and> count (minute rl') = k \<and> lastReset (minute rl') = lastReset (minute rl) \<and>
        (\<forall>t. t - lastReset (minute rl) \<le> 60000 \<and> k < 60 \<and>
              count (second (resetSecond_part0 t rl')) < 2
            \<longrightarrow> fst (checkRateLimit_part0 t rl') = Inr ()) \<and>
        (\<forall>t. t - lastReset (minute rl) \<le> 60000 \<and> k = 60
            \<longrightarrow> fst (checkRateLimit_part0 t rl') = Inl (Error ''Rate limit exceeded'')) \<and>
        (\<forall>t. t - lastReset (minute rl) > 60000 \<and> count (second (resetSecond_part0 t rl')) < 2
            \<longrightarrow> fst (checkRateLimit_part0 t rl') = Inr () \<and>
                minute (snd (checkRateLimit_part0 t rl')) = \<lparr>count = 1, lastReset = t\<rparr>)))
   \<and> checkRateLimit_index now rc =
     (let rc' = resetMinute_index now (resetSecond_index now rc) in
      if 2 \<le> rc_second rc' \<or> 60 \<le> rc_minute rc'
      then (Inl (Error ''Rate limit exceeded''), rc')
      else (Inr (), rc'\<lparr>rc_second := rc_second rc' + 1, rc_minute := rc_minute rc' + 1\<rparr>))
   \<and> (rc_second rc = 0 \<and> (\<forall>t\<in>set ts. t - rc_lastReset rc \<le> 1000) \<longrightarrow>
       (let rc' = snd (run_index ts rc); k = successes (fst (run_index ts rc)) in
        k \<le> 2 \<and> rc_second rc' = k \<and> rc_lastReset rc' = rc_lastReset rc \<and>
        (\<forall>t. t - rc_lastReset rc \<le> 1000 \<and> k < 2 \<and> rc_minute rc' < 60
            \<longrightarrow> fst (checkRateLimit_index t rc') = Inr ()) \<and>
        (\<forall>t. t - rc_lastReset rc \<le> 1000 \<and> k = 2
            \<longrightarrow> fst (checkRateLimit_index t rc') = Inl (Error ''Rate limit exceeded'')) \<and>
        (\<forall>t. t - rc_lastReset rc > 1000 \<and> rc_minute rc' < 60
            \<longrightarrow> fst (checkRateLimit_index t rc') = Inr () \<and>
                rc_second (snd (checkRateLimit_index t rc')) = 1 \<and>
                rc_lastReset (snd (checkRateLimit_index t rc')) = t)))"
proof (intro conjI impI)
  show "checkRateLimit_part0 now rl =
     (let rl' = resetMinute_part0 now (resetSecond_part0 now rl) in
      if 2 \<le> count (second rl') \<or> 60 \<le> count (minute rl')
      then (Inl (Error ''Rate limit exceeded''), rl')
      else (Inr (), rl'\<lparr>second := (second rl')\<lparr>count := count (second rl') + 1\<rparr>,
                       minute := (minute rl')\<lparr>count := count (minute rl') + 1\<rparr>\<rparr>))"
    by (rule checkRateLimit_part0_step)
next
  assume "count (second rl) = 0 \<and> (\<forall>t\<in>set ts. t - lastReset (second rl) \<le> 1000)"
  then show "let rl' = snd (run_part0 ts rl); k = successes (fst (run_part0 ts rl)) in
        k \<le> 2 \<and> count (second rl') = k \<and> lastReset (second rl') = lastReset (second rl) \<and>
        (\<forall>t. t - lastReset (second rl) \<le> 1000 \<and> k < 2 \<and>
              count (minute (resetMinute_part0 t rl')) < 60
            \<longrightarrow> fst (checkRateLimit_part0 t rl') = Inr ()) \<and>
        (\<forall>t. t - lastReset (second rl) \<le> 1000 \<and> k = 2
            \<longrightarrow> fst (checkRateLimit_part0 t rl') = Inl (Error ''Rate limit exceeded'')) \<and>
        (\<forall>t. t - lastReset (second rl) > 1000 \<and> count (minute (resetMinute_part0 t rl')) < 60
            \<longrightarrow> fst (checkRateLimit_part0 t rl') = Inr () \<and>
                second (snd (checkRateLimit_part0 t rl')) = \<lparr>count = 1, lastReset = t\<rparr>)"
    using second_window_part0 [of rl ts] by blast
next
  assume "count (minute rl) = 0 \<and> (\<forall>t\<in>set ts. t - lastReset (minute rl) \<le> 60000)"
  then show "let rl' = snd (run_part0 ts rl); k = successes (fst (run_part0 ts rl)) in
        k \<le> 60 \<and> count (minute rl') = k \<and> lastReset (minute rl') = lastReset (minute rl) \<and>
        (\<forall>t. t - lastReset (minute rl) \<le> 60000 \<and> k < 60 \<and>
              count (second (resetSecond_part0 t rl')) < 2
            \<longrightarrow> fst (checkRateLimit_part0 t rl') = Inr ()) \<and>
        (\<forall>t. t - lastReset (minute rl) \<le> 60000 \<and> k = 60
            \<longrightarrow> fst (checkRateLimit_part0 t rl') = Inl (Error ''Rate limit exceeded'')) \<and>
        (\<forall>t. t - lastReset (minute rl) > 60000 \<and> count (second (resetSecond_part0 t rl')) < 2
            \<longrightarrow> fst (checkRateLimit_part0 t rl') = Inr () \<and>
                minute (snd (checkRateLimit_part0 t rl')) = \<lparr>count = 1, lastReset = t\<rparr>)"
    using minute_window_part0 [of rl ts] by blast
next
  show "checkRateLimit_index now rc =
     (let rc' = resetMinute_index now (resetSecond_index now rc) in
      if 2 \<le> rc_second rc' \<or> 60 \<le> rc_minute rc'
      then (Inl (Error ''Rate limit exceeded''), rc')
      else (Inr (), rc'\<lparr>rc_second := rc_second rc' + 1, rc_minute := rc_minute rc' + 1\<rparr>))"
    by (rule checkRateLimit_index_step)
next
  assume "rc_second rc = 0 \<and> (\<forall>t\<in>set ts. t - rc_lastReset rc \<le> 1000)"
  then show "let rc' = snd (run_index ts rc); k = successes (fst (run_index ts rc)) in
        k \<le> 2 \<and> rc_second rc' = k \<and> rc_lastReset rc' = rc_lastReset rc \<and>
        (\<forall>t. t - rc_lastReset rc \<le> 1000 \<and> k < 2 \<and> rc_minute rc' < 60
            \<longrightarrow> fst (checkRateLimit_index t rc') = Inr ()) \<and>
        (\<forall>t. t - rc_lastReset rc \<le> 1000 \<and> k = 2
            \<longrightarrow> fst (checkRateLimit_index t rc') = Inl (Error ''Rate limit exceeded'')) \<and>
        (\<forall>t. t - rc_lastReset rc > 1000 \<and> rc_minute rc' < 60
            \<longrightarrow> fst (checkRateLimit_index t rc') = Inr () \<and>
                rc_second (snd (checkRateLimit_index t rc')) = 1 \<and>
                rc_lastReset (snd (checkRateLimit_index t rc')) = t)"
    using second_window_index [of rc ts] by blast
qed

text \<open>
  The amended C3 at two calls at time 0 from the initial state: both pass, a third call
  at time 1000 is refused, and one at time 1001 passes, in both files; in part\_000 a
  call at time 60001 passes and starts the minute window afresh.
\<close>

theorem rate_limit_windows_witness:
  "successes (fst (run_part0 [0, 0] (initial_rateLimits 0))) = 2 \<and>
   count (minute (snd (run_part0 [0, 0] (initial_rateLimits 0)))) = 2 \<and>
   fst (checkRateLimit_part0 1000 (snd (run_part0 [0, 0] (initial_rateLimits 0)))) =
     Inl (Error ''Rate limit exceeded'') \<and>
   fst (checkRateLimit_part0 1001 (snd (run_part0 [0, 0] (initial_rateLimits 0)))) = Inr () \<and>
   fst (checkRateLimit_part0 60001 (snd (run_part0 [0, 0] (initial_rateLimits 0)))) = Inr () \<and>
   minute (snd (checkRateLimit_part0 60001 (snd (run_part0 [0, 0] (initial_rateLimits 0))))) =
     \<lparr>count = 1, lastReset = 60001\<rparr> \<and>
   successes (fst (run_index [0, 0] (initial_requestCount 0))) = 2 \<and>
   fst (checkRateLimit_index 1000 (snd (run_index [0, 0] (initial_requestCount 0)))) =
     Inl (Error ''Rate limit exceeded'') \<and>
   fst (checkRateLimit_index 1001 (snd (run_index [0, 0] (initial_requestCount 0)))) = Inr ()"
  using rate_limit_windows [of 1001 "initial_rateLimits 0" "[0, 0]" "initial_requestCount 0"]
  by (simp add: rateLimit_part0_defs rateLimit_index_defs initial_rateLimits_def
      initial_requestCount_def successes_def)

subsection \<open>Argument validators\<close>

text \<open>
  Each guard is true exactly of an object whose \<^verbatim>\<open>url\<close> is a string (for batch, whose
  \<^verbatim>\<open>urls\<close> is an array), and a value that passes is truthy.
\<close>

lemma guard_url_iff:
  "typeof_object args \<and> args \<noteq> JNull \<and> has_key ''url'' args \<and> typeof_string (member_js args ''url'')
   \<longleftrightarrow> (\<exists>fs u. args = JObj fs \<and> map_of fs ''url'' = Some (JStr u))"
proof (cases args)
  case (JObj fs)
  show ?thesis
  proof (cases "map_of fs ''url''")
    case None
    with JObj show ?thesis by simp
  next
    case (Some v)
    with JObj show ?thesis by (cases v) simp_all
  qed
qed simp_all

lemma guard_urls_iff:
  "isFireCrawlBatchArgs args \<longleftrightarrow> (\<exists>fs us. args = JObj fs \<and> map_of fs ''urls'' = Some (JArr us))"
proof (cases args)
  case (JObj fs)
  show ?thesis
  proof (cases "map_of fs ''urls''")
    case None
    with JObj show ?thesis by (simp add: isFireCrawlBatchArgs_def)
  next
    case (Some v)
    with JObj show ?thesis by (cases v) (simp_all add: isFireCrawlBatchArgs_def)
  qed
qed (simp_all add: isFireCrawlBatchArgs_def)

lemma valid_truthy:
  "isFireCrawlScrapeArgs args \<Longrightarrow> truthy args"
  "isFireCrawlBatchArgs args \<Longrightarrow> truthy args"
  "isScrapeOptions args \<Longrightarrow> truthy args"
  "isMapOptions args \<Longrightarrow> truthy args"
  "isCrawlOptions args \<Longrightarrow> truthy args"
  by (cases args; simp add: isFireCrawlScrapeArgs_def isFireCrawlBatchArgs_def isScrapeOptions_def
        isMapOptions_def isCrawlOptions_def)+

text \<open>
  C6, as stated, fails: a bag with a string \<^verbatim>\<open>url\<close> and a \<^verbatim>\<open>timeout\<close> that is a string, or
  \<^verbatim>\<open>formats\<close> that is no array, is accepted. The guards read the required field and
  nothing else.
\<close>

theorem validators_accept_mistyped_options:
  "isFireCrawlScrapeArgs (JObj [(''url'', JStr ''https://example.com''), (''timeout'', JStr ''30000'')]) \<and>
   isScrapeOptions (JObj [(''url'', JStr ''https://example.com''), (''timeout'', JStr ''30000'')]) \<and>
   isScrapeOptions (JObj [(''url'', JStr ''https://example.com''), (''formats'', JStr ''markdown'')])"
  by (simp add: isFireCrawlScrapeArgs_def isScrapeOptions_def)

text \<open>
  C6, amended. Each validator accepts a bag if and only if the bag is an object whose
  required field is present with the required type: a string \<^verbatim>\<open>url\<close> for the scrape, map
  and crawl tools, an array \<^verbatim>\<open>urls\<close> for batch. No other field is examined: setting any
  other key to any value changes no verdict.
\<close>

theorem validators_required_field_only:
  "(isFireCrawlScrapeArgs args \<longleftrightarrow> (\<exists>fs u. args = JObj fs \<and> map_of fs ''url'' = Some (JStr u)))
   \<and> (isFireCrawlBatchArgs args \<longleftrightarrow> (\<exists>fs us. args = JObj fs \<and> map_of fs ''urls'' = Some (JArr us)))
   \<and> (isScrapeOptions args \<longleftrightarrow> (\<exists>fs u. args = JObj fs \<and> map_of fs ''url'' = Some (JStr u)))
   \<and> (isMapOptions args \<longleftrightarrow> (\<exists>fs u. args = JObj fs \<and> map_of fs ''url'' = Some (JStr u)))
   \<and> (isCrawlOptions args \<longleftrightarrow> (\<exists>fs u. args = JObj fs \<and> map_of fs ''url'' = Some (JStr u)))
   \<and> (k \<noteq> ''url'' \<longrightarrow>
        isFireCrawlScrapeArgs (JObj ((k, v) # fs)) = isFireCrawlScrapeArgs (JObj fs) \<and>
        isScrapeOptions (JObj ((k, v) # fs)) = isScrapeOptions (JObj fs) \<and>
        isMapOptions (JObj ((k, v) # fs)) = isMapOptions (JObj fs) \<and>
        isCrawlOptions (JObj ((k, v) # fs)) = isCrawlOptions (JObj fs))
   \<and> (k \<noteq> ''urls'' \<longrightarrow>
        isFireCrawlBatchArgs (JObj ((k, v) # fs)) = isFireCrawlBatchArgs (JObj fs))"
  using guard_url_iff [of args] guard_urls_iff [of args]
  by (simp add: isFireCrawlScrapeArgs_def isFireCrawlBatchArgs_def isScrapeOptions_def
        isMapOptions_def isCrawlOptions_def)

text \<open>
  The amended C6 at a bag with a mistyped \<^verbatim>\<open>timeout\<close> before its \<^verbatim>\<open>url\<close>, and at a batch
  bag with a number for \<^verbatim>\<open>options\<close>.
\<close>

theorem validators_required_field_only_witness:
  "isFireCrawlScrapeArgs (JObj [(''timeout'', JStr ''30000''), (''url'', JStr ''https://example.com'')]) \<and>
   isFireCrawlBatchArgs (JObj [(''options'', JNum 5), (''urls'', JArr [])])"
  using validators_required_field_only [of "JObj [(''url'', JStr ''https://example.com'')]" "''timeout''" "JStr ''30000''" "[(''url'', JStr ''https://example.com'')]"]
    validators_required_field_only [of "JObj [(''urls'', JArr [])]" "''options''" "JNum 5" "[(''urls'', JArr [])]"]
  by (simp add: isFireCrawlScrapeArgs_def isFireCrawlBatchArgs_def)

subsection \<open>Calls that reach the network\<close>

text \<open>
  Once the rate check passes and every request is answered by \<open>response\<close>, the
  \<^verbatim>\<open>perform\<close> functions return what they read from that response, and the handlers wrap
  it.
\<close>

lemma performSingleScrape_answered:
  assumes "fst (checkRateLimit_part0 now (limiter w)) = Inr ()"
    and "\<forall>req. fetch rt req = Inr response"
  shows "fst (performSingleScrape rt now url options apiKey w) =
     (if \<not> ok response then
        (case resp_text response of
           Inl e \<Rightarrow> Inl e
         | Inr body \<Rightarrow> Inl (Error (api_error_message response body)))
      else resp_json response)"
  using assms
  by (cases "checkRateLimit_part0 now (limiter w)")
     (simp add: performSingleScrape_def Let_def split: sum.split)

lemma performBatchScrape_answered:
  assumes "fst (checkRateLimit_part0 now (limiter w)) = Inr ()"
    and "\<forall>req. fetch rt req = Inr response"
  shows "fst (performBatchScrape rt now urls options apiKey w) =
     (if \<not> ok response then
        (case resp_text response of
           Inl e \<Rightarrow> Inl e
         | Inr body \<Rightarrow> Inl (Error (api_error_message response body)))
      else resp_json response)"
  using assms
  by (cases "checkRateLimit_part0 now (limiter w)")
     (simp add: performBatchScrape_def Let_def split: sum.split)

lemma callTool_part0_scrape:
  assumes "isFireCrawlScrapeArgs args"
  shows "fst (callTool_part0 rt now ''fire_crawl_scrape'' args w) =
     (case fst (performSingleScrape rt now (member_js args ''url'')
                   [(''parsePDF'', member_js args ''parsePDF''),
                    (''waitForSelector'', member_js args ''waitForSelector''),
                    (''javascript'', member_js args ''javascript''),
                    (''timeout'', member_js args ''timeout'')]
                   (FIRE_CRAWL_API_KEY rt) w) of
        Inl err \<Rightarrow> error_result (''Error: '' @ message err)
      | Inr result \<Rightarrow>
          (case getProp result ''markdown'' of
             Inl err \<Rightarrow> error_result (''Error: '' @ message err)
           | Inr md \<Rightarrow> \<lparr>content = [\<lparr>c_type = ''text'', c_text = md\<rparr>], isError = False\<rparr>))"
  using assms valid_truthy(1) [OF assms]
  by (simp add: callTool_part0_def split: prod.split sum.split)

lemma callTool_part0_batch:
  assumes "isFireCrawlBatchArgs args"
  shows "fst (callTool_part0 rt now ''fire_crawl_batch'' args w) =
     (case fst (performBatchScrape rt now (member_js args ''urls'') (member_js args ''options'')
                   (FIRE_CRAWL_API_KEY rt) w) of
        Inl err \<Rightarrow> error_result (''Error: '' @ message err)
      | Inr result \<Rightarrow>
          (case batch_text result of
             Inl err \<Rightarrow> error_result (''Error: '' @ message err)
           | Inr t \<Rightarrow> text_result t))"
  using assms valid_truthy(2) [OF assms]
  by (simp add: callTool_part0_def text_result_def split: prod.split sum.split)

lemma post_index_answered:
  assumes "fst (checkRateLimit_index now (limiter w)) = Inr ()"
    and "\<forall>req. fetch rt req = Inr response"
  shows "fst (post_index rt now endpoint options w) =
     (if \<not> ok response then
        (case resp_json response of
           Inl e \<Rightarrow> Inl e
         | Inr errorData \<Rightarrow>
             Inl (Error (api_error_message response (JSON_stringify rt errorData))))
      else resp_json response)"
  using assms
  by (cases "checkRateLimit_index now (limiter w)")
     (simp add: post_index_def Let_def split: sum.split)

lemma performScrape_answered:
  assumes "fst (checkRateLimit_index now (limiter w)) = Inr ()"
    and "\<forall>req. fetch rt req = Inr response"
    and "ok response" and "resp_json response = Inr data"
  shows "fst (performScrape rt now options w) = scrape_content data"
  using post_index_answered [OF assms(1,2), of "''https://api.firecrawl.dev/v1/scrape''" options] assms(3,4)
  by (auto simp add: performScrape_def split: prod.split sum.split)

lemma callTool_index_scrape:
  assumes "isScrapeOptions args"
  shows "fst (callTool_index rt now ''fire_crawl_scrape'' args w) =
     (case fst (performScrape rt now args w) of
        Inl e \<Rightarrow> error_result (''Error: '' @ message e)
      | Inr scraped \<Rightarrow> text_result scraped)"
  using assms valid_truthy(3) [OF assms]
  by (simp add: callTool_index_def callTool_try_index_def split: prod.split sum.split)

lemma scrape_content_data:
  assumes "truthy (member_js data ''success'')" and "truthy (member_js data ''data'')"
  shows "scrape_content data =
     (let d = member_js data ''data'';
          content = js_or (js_or (member_js d ''markdown'') (member_js d ''html''))
                      (member_js d ''rawHtml'')
      in if \<not> truthy content
         then Inl (Error ''No content received from FireCrawl API'')
         else (case content of
                 JStr s \<Rightarrow> Inr (trim s)
               | _ \<Rightarrow> Inl (Error ''content.trim is not a function'')))"
  using assms by (cases data) (simp_all add: scrape_content_def)

lemma callTool_index_scrape_answered:
  assumes "isScrapeOptions args" and "fst (checkRateLimit_index now (limiter w)) = Inr ()"
    and "\<forall>req. fetch rt req = Inr response" and "ok response" and "resp_json response = Inr data"
  shows "fst (callTool_index rt now ''fire_crawl_scrape'' args w) =
     (case scrape_content data of
        Inl e \<Rightarrow> error_result (''Error: '' @ message e)
      | Inr scraped \<Rightarrow> text_result scraped)"
  using callTool_index_scrape [OF assms(1)] performScrape_answered [OF assms(2-5)]
  by simp

text \<open>
  Facts about the example surroundings.
\<close>

lemmas example_defs = serving_def failure_reply_def failure_json_reply_def json_reply_def
  example_args_def start_part0_def start_index_def initial_rateLimits_def initial_requestCount_def

lemma example_args_valid:
  "isFireCrawlScrapeArgs example_args" "isScrapeOptions example_args"
  "isMapOptions example_args" "isCrawlOptions example_args"
  by (simp_all add: example_args_def isFireCrawlScrapeArgs_def isScrapeOptions_def
        isMapOptions_def isCrawlOptions_def)

lemma start_passes:
  "fst (checkRateLimit_part0 0 (limiter (start_part0 0))) = Inr ()"
  "fst (checkRateLimit_index 0 (limiter (start_index 0))) = Inr ()"
  by (simp_all add: start_part0_def start_index_def initial_rateLimits_def
        initial_requestCount_def rateLimit_part0_defs rateLimit_index_defs)

lemma show_nat_400: "show_nat 400 = ''400''"
  by (simp add: show_nat.simps digit_def)

lemma trim_example: "trim ''# Example'' = ''# Example''"
  by (simp add: trim_def isWhiteSpace_def)

subsection \<open>Calls that are turned away\<close>

text \<open>
  C4. A call that names no registered tool, or whose argument bag fails the validator of
  the tool it names, gets an error result; no request is sent, and the rate limiter's
  counters and window starts stay as they were. In both files.
\<close>

theorem rejected_calls_touch_nothing:
  "(name \<notin> {''fire_crawl_scrape'', ''fire_crawl_batch''}
      \<or> name = ''fire_crawl_scrape'' \<and> \<not> isFireCrawlScrapeArgs args
      \<or> name = ''fire_crawl_batch'' \<and> \<not> isFireCrawlBatchArgs args
    \<longrightarrow> isError (fst (callTool_part0 rt now name args w)) \<and>
        sent (snd (callTool_part0 rt now name args w)) = sent w \<and>
        limiter (snd (callTool_part0 rt now name args w)) = limiter w)
   \<and> (name \<notin> {''fire_crawl_scrape'', ''fire_crawl_map'', ''fire_crawl_crawl''}
      \<or> name = ''fire_crawl_scrape'' \<and> \<not> isScrapeOptions args
      \<or> name = ''fire_crawl_map'' \<and> \<not> isMapOptions args
      \<or> name = ''fire_crawl_crawl'' \<and> \<not> isCrawlOptions args
    \<longrightarrow> isError (fst (callTool_index rt now name args wi)) \<and>
        sent (snd (callTool_index rt now name args wi)) = sent wi \<and>
        limiter (snd (callTool_index rt now name args wi)) = limiter wi)"
proof (intro conjI impI)
  assume "name \<notin> {''fire_crawl_scrape'', ''fire_crawl_batch''}
      \<or> name = ''fire_crawl_scrape'' \<and> \<not> isFireCrawlScrapeArgs args
      \<or> name = ''fire_crawl_batch'' \<and> \<not> isFireCrawlBatchArgs args"
  then have "callTool_part0 rt now name args w =
      (if \<not> truthy args then error_result ''Error: No arguments provided''
       else if name = ''fire_crawl_scrape'' then error_result ''Error: Invalid arguments for single scrape''
       else if name = ''fire_crawl_batch'' then error_result ''Error: Invalid arguments for batch scrape''
       else error_result ''Error: Unknown tool'', w)"
    by (auto simp add: callTool_part0_def)
  then show "isError (fst (callTool_part0 rt now name args w))"
    and "sent (snd (callTool_part0 rt now name args w)) = sent w"
    and "limiter (snd (callTool_part0 rt now name args w)) = limiter w"
    by (simp_all add: error_result_def)
next
  assume "name \<notin> {''fire_crawl_scrape'', ''fire_crawl_map'', ''fire_crawl_crawl''}
      \<or> name = ''fire_crawl_scrape'' \<and> \<not> isScrapeOptions args
      \<or> name = ''fire_crawl_map'' \<and> \<not> isMapOptions args
      \<or> name = ''fire_crawl_crawl'' \<and> \<not> isCrawlOptions args"
  then have "callTool_try_index rt now name args wi =
      (if \<not> truthy args then Inl (Error ''No arguments provided'')
       else if name = ''fire_crawl_scrape'' then Inl (Error ''Invalid arguments for fire_crawl_scrape'')
       else if name = ''fire_crawl_map'' then Inl (Error ''Invalid arguments for fire_crawl_map'')
       else if name = ''fire_crawl_crawl'' then Inl (Error ''Invalid arguments for fire_crawl_crawl'')
       else Inr \<lparr>content = [\<lparr>c_type = ''text'', c_text = JStr (''Unknown tool: '' @ name)\<rparr>],
                 isError = True\<rparr>, wi)"
    by (auto simp add: callTool_try_index_def)
  then show "isError (fst (callTool_index rt now name args wi))"
    and "sent (snd (callTool_index rt now name args wi)) = sent wi"
    and "limiter (snd (callTool_index rt now name args wi)) = limiter wi"
    by (simp_all add: callTool_index_def error_result_def)
qed

text \<open>
  C4 at a scrape call without \<^verbatim>\<open>url\<close> on part\_000, and at a call of \<^verbatim>\<open>fire_crawl_batch\<close>,
  which index.ts does not offer.
\<close>

theorem rejected_calls_touch_nothing_witness:
  "isError (fst (callTool_part0 (serving (json_reply (JObj []))) 0 ''fire_crawl_scrape'' (JObj [])
      (start_part0 0))) \<and>
   snd (callTool_part0 (serving (json_reply (JObj []))) 0 ''fire_crawl_scrape'' (JObj [])
      (start_part0 0)) = start_part0 0 \<and>
   isError (fst (callTool_index (serving (json_reply (JObj []))) 0 ''fire_crawl_batch'' example_args
      (start_index 0))) \<and>
   snd (callTool_index (serving (json_reply (JObj []))) 0 ''fire_crawl_batch'' example_args
      (start_index 0)) = start_index 0"
  using rejected_calls_touch_nothing [of "''fire_crawl_scrape''" "JObj []"
          "serving (json_reply (JObj []))" 0 "start_part0 0" "start_index 0"]
        rejected_calls_touch_nothing [of "''fire_crawl_batch''" example_args
          "serving (json_reply (JObj []))" 0 "start_part0 0" "start_index 0"]
  by (simp add: callTool_part0_def callTool_index_def callTool_try_index_def
        isFireCrawlScrapeArgs_def error_result_def example_args_def)

subsection \<open>The shape of every result\<close>

text \<open>
  What a successful \<^verbatim>\<open>performSingleScrape\<close> returned is the parsed body of an \<^verbatim>\<open>ok\<close>
  response, and a property read without a throw is the member.
\<close>

lemma performSingleScrape_Inr:
  assumes "fst (performSingleScrape rt now url options apiKey w) = Inr result"
  shows "\<exists>req response. fetch rt req = Inr response \<and> ok response \<and> resp_json response = Inr result"
proof -
  obtain c rl where c: "checkRateLimit_part0 now (limiter w) = (c, rl)"
    by (cases "checkRateLimit_part0 now (limiter w)")
  show ?thesis
  proof (cases c)
    case (Inl e)
    with c assms show ?thesis by (simp add: performSingleScrape_def)
  next
    case (Inr u)
    with c assms show ?thesis
      by (auto simp add: performSingleScrape_def Let_def split: sum.splits if_splits)
  qed
qed

lemma getProp_Inr: "getProp v k = Inr x \<Longrightarrow> x = member_js v k"
  by (cases v) auto

text \<open>
  Every result of part\_000 is an error result whose text starts with \<^verbatim>\<open>Error: \<close>, or a
  text result, or the success of a scrape, whose text is the \<^verbatim>\<open>markdown\<close> member of the
  upstream body as it came.
\<close>

lemma callTool_part0_cases:
  "(\<exists>e. fst (callTool_part0 rt now name args w) = error_result (''Error: '' @ e))
   \<or> (\<exists>t. fst (callTool_part0 rt now name args w) = text_result t)
   \<or> (name = ''fire_crawl_scrape'' \<and>
       (\<exists>req response data. fetch rt req = Inr response \<and> ok response \<and>
          resp_json response = Inr data \<and>
          fst (callTool_part0 rt now name args w) =
            \<lparr>content = [\<lparr>c_type = ''text'', c_text = member_js data ''markdown''\<rparr>],
             isError = False\<rparr>))"
proof (cases "truthy args")
  case False
  then have "fst (callTool_part0 rt now name args w) =
      error_result (''Error: '' @ ''No arguments provided'')"
    by (simp add: callTool_part0_def)
  then show ?thesis by blast
next
  case True
  consider (scrape) "name = ''fire_crawl_scrape''" | (batch) "name = ''fire_crawl_batch''"
    | (other) "name \<notin> {''fire_crawl_scrape'', ''fire_crawl_batch''}"
    by auto
  then show ?thesis
  proof cases
    case scrape
    show ?thesis
    proof (cases "isFireCrawlScrapeArgs args")
      case False
      with True scrape have "fst (callTool_part0 rt now name args w) =
          error_result (''Error: '' @ ''Invalid arguments for single scrape'')"
        by (simp add: callTool_part0_def)
      then show ?thesis by blast
    next
      case valid: True
      let ?p = "fst (performSingleScrape rt now (member_js args ''url'')
                   [(''parsePDF'', member_js args ''parsePDF''),
                    (''waitForSelector'', member_js args ''waitForSelector''),
                    (''javascript'', member_js args ''javascript''),
                    (''timeout'', member_js args ''timeout'')]
                   (FIRE_CRAWL_API_KEY rt) w)"
      show ?thesis
      proof (cases ?p)
        case (Inl e)
        with scrape valid have "fst (callTool_part0 rt now name args w) =
            error_result (''Error: '' @ message e)"
          by (simp add: callTool_part0_scrape)
        then show ?thesis by blast
      next
        case (Inr result)
        from performSingleScrape_Inr [OF Inr] obtain req response
          where r: "fetch rt req = Inr response" "ok response" "resp_json response = Inr result"
          by blast
        show ?thesis
        proof (cases "getProp result ''markdown''")
          case (Inl e)
          with Inr scrape valid have "fst (callTool_part0 rt now name args w) =
              error_result (''Error: '' @ message e)"
            by (simp add: callTool_part0_scrape)
          then show ?thesis by blast
        next
          case md: (Inr x)
          with Inr scrape valid getProp_Inr [OF md]
          have "fst (callTool_part0 rt now name args w) =
              \<lparr>content = [\<lparr>c_type = ''text'', c_text = member_js result ''markdown''\<rparr>],
               isError = False\<rparr>"
            by (simp add: callTool_part0_scrape)
          with scrape r show ?thesis by blast
        qed
      qed
    qed
  next
    case batch
    show ?thesis
    proof (cases "isFireCrawlBatchArgs args")
      case False
      with True batch have "fst (callTool_part0 rt now name args w) =
          error_result (''Error: '' @ ''Invalid arguments for batch scrape'')"
        by (simp add: callTool_part0_def)
      then show ?thesis by blast
    next
      case valid: True
      let ?p = "fst (performBatchScrape rt now (member_js args ''urls'') (member_js args ''options'')
                   (FIRE_CRAWL_API_KEY rt) w)"
      show ?thesis
      proof (cases ?p)
        case (Inl e)
        with batch valid have "fst (callTool_part0 rt now name args w) =
            error_result (''Error: '' @ message e)"
          by (simp add: callTool_part0_batch)
        then show ?thesis by blast
      next
        case (Inr result)
        show ?thesis
        proof (cases "batch_text result")
          case (Inl e)
          with Inr batch valid have "fst (callTool_part0 rt now name args w) =
              error_result (''Error: '' @ message e)"
            by (simp add: callTool_part0_batch)
          then show ?thesis by blast
        next
          case t: (Inr t)
          with Inr batch valid have "fst (callTool_part0 rt now name args w) = text_result t"
            by (simp add: callTool_part0_batch)
          then show ?thesis by blast
        qed
      qed
    qed
  next
    case other
    with True have "fst (callTool_part0 rt now name args w) =
        error_result (''Error: '' @ ''Unknown tool'')"
      by (simp add: callTool_part0_def)
    then show ?thesis by blast
  qed
qed

text \<open>
  Every result of index.ts is an error result made by the \<^verbatim>\<open>catch\<close>, or a text result,
  or the reply of the \<^verbatim>\<open>default\<close> branch to a name that is not registered.
\<close>

lemma try_index_cases:
  "(\<exists>e. fst (callTool_try_index rt now name args w) = Inl e)
   \<or> (\<exists>s. fst (callTool_try_index rt now name args w) = Inr (text_result s))
   \<or> (name \<notin> {''fire_crawl_scrape'', ''fire_crawl_map'', ''fire_crawl_crawl''} \<and>
        fst (callTool_try_index rt now name args w) =
          Inr \<lparr>content = [\<lparr>c_type = ''text'', c_text = JStr (''Unknown tool: '' @ name)\<rparr>], isError = True\<rparr>)"
proof (cases "truthy args")
  case False
  then show ?thesis by (simp add: callTool_try_index_def)
next
  case True
  consider (scrape) "name = ''fire_crawl_scrape''" | (map) "name = ''fire_crawl_map''"
    | (crawl) "name = ''fire_crawl_crawl''"
    | (other) "name \<notin> {''fire_crawl_scrape'', ''fire_crawl_map'', ''fire_crawl_crawl''}"
    by auto
  then show ?thesis
  proof cases
    case scrape
    with True show ?thesis
      by (auto simp add: callTool_try_index_def split: prod.split sum.split)
  next
    case map
    with True show ?thesis
      by (auto simp add: callTool_try_index_def split: prod.split sum.split jsval.split)
  next
    case crawl
    with True show ?thesis
      by (auto simp add: callTool_try_index_def split: prod.split sum.split)
  next
    case other
    with True show ?thesis
      by (simp add: callTool_try_index_def)
  qed
qed

lemma callTool_index_cases:
  "(\<exists>e. fst (callTool_index rt now name args w) = error_result (''Error: '' @ e))
   \<or> (\<exists>s. fst (callTool_index rt now name args w) = text_result s)
   \<or> (name \<notin> {''fire_crawl_scrape'', ''fire_crawl_map'', ''fire_crawl_crawl''} \<and>
        fst (callTool_index rt now name args w) =
          \<lparr>content = [\<lparr>c_type = ''text'', c_text = JStr (''Unknown tool: '' @ name)\<rparr>], isError = True\<rparr>)"
proof -
  obtain r w' where r: "callTool_try_index rt now name args w = (r, w')"
    by (cases "callTool_try_index rt now name args w")
  show ?thesis
    using try_index_cases [of rt now name args w] r
    by (cases r) (auto simp add: callTool_index_def)
qed

text \<open>
  C9, as stated, fails on part\_000: when the upstream body is the JSON object \<^verbatim>\<open>{}\<close>,
  the scrape succeeds with \<^verbatim>\<open>text: undefined\<close>, which is no string.
\<close>

theorem scrape_text_undefined:
  "fst (callTool_part0 (serving (json_reply (JObj []))) 0 ''fire_crawl_scrape'' example_args
          (start_part0 0)) =
     \<lparr>content = [\<lparr>c_type = ''text'', c_text = JUndefined\<rparr>], isError = False\<rparr>"
  by (simp add: callTool_part0_def performSingleScrape_def example_defs isFireCrawlScrapeArgs_def
        rateLimit_part0_defs)

text \<open>
  C9, amended. For every tool name, argument bag (also a missing one) and upstream
  behaviour (also a throwing \<^verbatim>\<open>fetch\<close> or body reader) the handler returns a result with
  exactly one block, of type \<^verbatim>\<open>text\<close>, and a boolean \<^verbatim>\<open>isError\<close>; that it returns is the
  totality of the two functions, every throw of the source being a value of the model. The
  text is a string in every result of index.ts, and in every result of part\_000 except a
  successful scrape, whose text is the \<^verbatim>\<open>markdown\<close> member of the parsed upstream body,
  whatever that is.
\<close>

theorem callTool_one_text_block:
  "(\<exists>v. content (fst (callTool_part0 rt now name args w)) = [\<lparr>c_type = ''text'', c_text = v\<rparr>] \<and>
        (typeof_string v \<or>
         name = ''fire_crawl_scrape'' \<and> \<not> isError (fst (callTool_part0 rt now name args w)) \<and>
         (\<exists>req response data. fetch rt req = Inr response \<and> ok response \<and>
            resp_json response = Inr data \<and> v = member_js data ''markdown'')))
   \<and> (\<exists>s. content (fst (callTool_index rt now name args wi)) = [\<lparr>c_type = ''text'', c_text = JStr s\<rparr>])"
proof
  show "\<exists>v. content (fst (callTool_part0 rt now name args w)) = [\<lparr>c_type = ''text'', c_text = v\<rparr>] \<and>
        (typeof_string v \<or>
         name = ''fire_crawl_scrape'' \<and> \<not> isError (fst (callTool_part0 rt now name args w)) \<and>
         (\<exists>req response data. fetch rt req = Inr response \<and> ok response \<and>
            resp_json response = Inr data \<and> v = member_js data ''markdown''))"
  proof -
    consider (err) e where "fst (callTool_part0 rt now name args w) = error_result (''Error: '' @ e)"
      | (plain) t where "fst (callTool_part0 rt now name args w) = text_result t"
      | (md) req response data where "name = ''fire_crawl_scrape''" "fetch rt req = Inr response"
          "ok response" "resp_json response = Inr data"
          "fst (callTool_part0 rt now name args w) =
            \<lparr>content = [\<lparr>c_type = ''text'', c_text = member_js data ''markdown''\<rparr>],
             isError = False\<rparr>"
      using callTool_part0_cases [of rt now name args w] by blast
    then show ?thesis
    proof cases
      case err
      then show ?thesis by (simp add: error_result_def)
    next
      case plain
      then show ?thesis by (simp add: text_result_def)
    next
      case md
      have "name = ''fire_crawl_scrape'' \<and> \<not> isError (fst (callTool_part0 rt now name args w)) \<and>
         (\<exists>req response data'. fetch rt req = Inr response \<and> ok response \<and>
            resp_json response = Inr data' \<and> member_js data ''markdown'' = member_js data' ''markdown'')"
        using md by auto
      with md(5) show ?thesis by simp
    qed
  qed
next
  show "\<exists>s. content (fst (callTool_index rt now name args wi)) = [\<lparr>c_type = ''text'', c_text = JStr s\<rparr>]"
    using callTool_index_cases [of rt now name args wi]
    by (auto simp add: error_result_def text_result_def)
qed

text \<open>
  The amended C9 at a scrape whose upstream body has a string \<^verbatim>\<open>markdown\<close>, and at a call
  of index.ts without arguments.
\<close>

theorem callTool_one_text_block_witness:
  "content (fst (callTool_part0 (serving (json_reply (JObj [(''markdown'', JStr ''# Example'')]))) 0
      ''fire_crawl_scrape'' example_args (start_part0 0))) =
     [\<lparr>c_type = ''text'', c_text = JStr ''# Example''\<rparr>] \<and>
   content (fst (callTool_index (serving (json_reply (JObj []))) 0
      ''fire_crawl_scrape'' JUndefined (start_index 0))) =
     [\<lparr>c_type = ''text'', c_text = JStr ''Error: No arguments provided''\<rparr>]"
  using callTool_one_text_block [of "serving (json_reply (JObj [(''markdown'', JStr ''# Example'')]))" 0
          "''fire_crawl_scrape''" example_args "start_part0 0" "start_index 0"]
        callTool_one_text_block [of "serving (json_reply (JObj []))" 0
          "''fire_crawl_scrape''" JUndefined "start_part0 0" "start_index 0"]
  by (simp add: callTool_part0_def performSingleScrape_def callTool_index_def
        callTool_try_index_def example_defs isFireCrawlScrapeArgs_def rateLimit_part0_defs
        error_result_def)

text \<open>
  C2, as stated, fails: a scrape of a page whose markdown starts with \<^verbatim>\<open>Error: \<close>
  succeeds with that text.
\<close>

theorem success_text_with_error_prefix:
  "fst (callTool_part0 (serving (json_reply (JObj [(''markdown'', JStr ''Error: 404 Not Found'')]))) 0
      ''fire_crawl_scrape'' example_args (start_part0 0)) =
     \<lparr>content = [\<lparr>c_type = ''text'', c_text = JStr (''Error: '' @ ''404 Not Found'')\<rparr>],
      isError = False\<rparr>"
  by (simp add: callTool_part0_def performSingleScrape_def example_defs isFireCrawlScrapeArgs_def
        rateLimit_part0_defs)

text \<open>
  C2, amended. Every result with \<^verbatim>\<open>isError = true\<close> has one text block whose text
  begins with \<^verbatim>\<open>Error: \<close>: for every call of part\_000, and for every call of index.ts
  that names a registered tool. The text of a successful result is upstream content and
  is not constrained.
\<close>

theorem error_results_prefixed:
  "(isError (fst (callTool_part0 rt now name args w)) \<longrightarrow>
      (\<exists>s. content (fst (callTool_part0 rt now name args w)) =
              [\<lparr>c_type = ''text'', c_text = JStr (''Error: '' @ s)\<rparr>]))
   \<and> (name \<in> {''fire_crawl_scrape'', ''fire_crawl_map'', ''fire_crawl_crawl''} \<and>
       isError (fst (callTool_index rt now name args wi)) \<longrightarrow>
      (\<exists>s. content (fst (callTool_index rt now name args wi)) =
              [\<lparr>c_type = ''text'', c_text = JStr (''Error: '' @ s)\<rparr>]))"
proof (intro conjI impI)
  assume "isError (fst (callTool_part0 rt now name args w))"
  then show "\<exists>s. content (fst (callTool_part0 rt now name args w)) =
              [\<lparr>c_type = ''text'', c_text = JStr (''Error: '' @ s)\<rparr>]"
    using callTool_part0_cases [of rt now name args w]
    by (auto simp add: error_result_def text_result_def)
next
  assume "name \<in> {''fire_crawl_scrape'', ''fire_crawl_map'', ''fire_crawl_crawl''} \<and>
       isError (fst (callTool_index rt now name args wi))"
  then show "\<exists>s. content (fst (callTool_index rt now name args wi)) =
              [\<lparr>c_type = ''text'', c_text = JStr (''Error: '' @ s)\<rparr>]"
    using callTool_index_cases [of rt now name args wi]
    by (auto simp add: error_result_def text_result_def)
qed

text \<open>
  The amended C2 at a call of \<^verbatim>\<open>fire_crawl_map\<close>: unknown to part\_000, and answered in
  index.ts by a body without \<^verbatim>\<open>success\<close>.
\<close>

theorem error_results_prefixed_witness:
  "isError (fst (callTool_part0 (serving (json_reply (JObj []))) 0 ''fire_crawl_map'' example_args
      (start_part0 0))) \<and>
   content (fst (callTool_part0 (serving (json_reply (JObj []))) 0 ''fire_crawl_map'' example_args
      (start_part0 0))) = [\<lparr>c_type = ''text'', c_text = JStr ''Error: Unknown tool''\<rparr>] \<and>
   isError (fst (callTool_index (serving (json_reply (JObj []))) 0 ''fire_crawl_map'' example_args
      (start_index 0))) \<and>
   content (fst (callTool_index (serving (json_reply (JObj []))) 0 ''fire_crawl_map'' example_args
      (start_index 0))) =
     [\<lparr>c_type = ''text'', c_text = JStr ''Error: Invalid response from FireCrawl API''\<rparr>]"
  using error_results_prefixed [of "serving (json_reply (JObj []))" 0 "''fire_crawl_map''"
          example_args "start_part0 0" "start_index 0"]
  by (simp add: callTool_part0_def callTool_index_def callTool_try_index_def performMap_def
        post_index_def map_links_def example_defs isMapOptions_def rateLimit_index_defs
        error_result_def)

subsection \<open>Upstream failures\<close>

text \<open>
  C5, as stated, fails: on status 400, \<^verbatim>\<open>Bad Request\<close>, body \<^verbatim>\<open>Invalid URL\<close>, the text
  of the result is the thrown message behind the prefix \<^verbatim>\<open>Error: \<close> that the \<^verbatim>\<open>catch\<close>
  adds, not the message alone.
\<close>

theorem upstream_failure_text_counterexample:
  "fst (callTool_part0 (serving (failure_reply 400 ''Bad Request'' ''Invalid URL'')) 0
          ''fire_crawl_scrape'' example_args (start_part0 0)) =
     \<lparr>content = [\<lparr>c_type = ''text'',
                  c_text = JStr (''Error: FireCrawl API error: 400 Bad Request'' @ [CHR 0x0A] @ ''Invalid URL'')\<rparr>],
      isError = True\<rparr> \<and>
   JStr (''Error: FireCrawl API error: 400 Bad Request'' @ [CHR 0x0A] @ ''Invalid URL'') \<noteq>
     JStr (''FireCrawl API error: 400 Bad Request'' @ [CHR 0x0A] @ ''Invalid URL'')"
  by (simp add: callTool_part0_def performSingleScrape_def example_defs isFireCrawlScrapeArgs_def
        rateLimit_part0_defs api_error_message_def show_nat_400 error_result_def)

text \<open>
  C5, amended. For a valid scrape call that passes the rate check and is answered by a
  response that is not \<^verbatim>\<open>ok\<close>: in part\_000, when the body reads as the text \<open>body\<close>,
  the result is an error whose text is \<^verbatim>\<open>Error: FireCrawl API error: \<close>, the status, a
  space, the status text, a newline and \<open>body\<close>. In index.ts the body is read as
  JSON: when it parses, the text ends with \<^verbatim>\<open>JSON.stringify\<close> of the parsed value in place
  of \<open>body\<close>; when parsing throws, the text is \<^verbatim>\<open>Error: \<close> and the parser's
  message.
\<close>

theorem upstream_failure_text:
  "(isFireCrawlScrapeArgs args \<and> fst (checkRateLimit_part0 now (limiter w)) = Inr () \<and>
    (\<forall>req. fetch rt req = Inr response) \<and> \<not> ok response \<and> resp_text response = Inr body
    \<longrightarrow> fst (callTool_part0 rt now ''fire_crawl_scrape'' args w) =
          error_result (''Error: FireCrawl API error: '' @ show_nat (status response) @ '' ''
                          @ statusText response @ [CHR 0x0A] @ body))
   \<and> (isScrapeOptions args \<and> fst (checkRateLimit_index now (limiter wi)) = Inr () \<and>
       (\<forall>req. fetch rt req = Inr response) \<and> \<not> ok response
       \<longrightarrow> (\<forall>errorData. resp_json response = Inr errorData \<longrightarrow>
               fst (callTool_index rt now ''fire_crawl_scrape'' args wi) =
                 error_result (''Error: FireCrawl API error: '' @ show_nat (status response) @ '' ''
                                 @ statusText response @ [CHR 0x0A] @ JSON_stringify rt errorData))
           \<and> (\<forall>e. resp_json response = Inl e \<longrightarrow>
               fst (callTool_index rt now ''fire_crawl_scrape'' args wi) =
                 error_result (''Error: '' @ message e)))"
proof (intro conjI impI allI)
  assume h: "isFireCrawlScrapeArgs args \<and> fst (checkRateLimit_part0 now (limiter w)) = Inr () \<and>
    (\<forall>req. fetch rt req = Inr response) \<and> \<not> ok response \<and> resp_text response = Inr body"
  then have "fst (performSingleScrape rt now (member_js args ''url'')
                   [(''parsePDF'', member_js args ''parsePDF''),
                    (''waitForSelector'', member_js args ''waitForSelector''),
                    (''javascript'', member_js args ''javascript''),
                    (''timeout'', member_js args ''timeout'')]
                   (FIRE_CRAWL_API_KEY rt) w) = Inl (Error (api_error_message response body))"
    by (simp add: performSingleScrape_answered [of now w rt response])
  with h show "fst (callTool_part0 rt now ''fire_crawl_scrape'' args w) =
          error_result (''Error: FireCrawl API error: '' @ show_nat (status response) @ '' ''
                          @ statusText response @ [CHR 0x0A] @ body)"
    by (simp add: callTool_part0_scrape api_error_message_def)
next
  fix errorData
  assume h: "isScrapeOptions args \<and> fst (checkRateLimit_index now (limiter wi)) = Inr () \<and>
       (\<forall>req. fetch rt req = Inr response) \<and> \<not> ok response"
    and j: "resp_json response = Inr errorData"
  then have "fst (post_index rt now ''https://api.firecrawl.dev/v1/scrape'' args wi) =
      Inl (Error (api_error_message response (JSON_stringify rt errorData)))"
    by (simp add: post_index_answered [of now wi rt response])
  then have "fst (performScrape rt now args wi) =
      Inl (Error (api_error_message response (JSON_stringify rt errorData)))"
    by (auto simp add: performScrape_def split: prod.split sum.split)
  with h show "fst (callTool_index rt now ''fire_crawl_scrape'' args wi) =
                 error_result (''Error: FireCrawl API error: '' @ show_nat (status response) @ '' ''
                                 @ statusText response @ [CHR 0x0A] @ JSON_stringify rt errorData)"
    by (simp add: callTool_index_scrape api_error_message_def)
next
  fix e
  assume h: "isScrapeOptions args \<and> fst (checkRateLimit_index now (limiter wi)) = Inr () \<and>
       (\<forall>req. fetch rt req = Inr response) \<and> \<not> ok response"
    and j: "resp_json response = Inl e"
  then have "fst (post_index rt now ''https://api.firecrawl.dev/v1/scrape'' args wi) = Inl e"
    by (simp add: post_index_answered [of now wi rt response])
  then have "fst (performScrape rt now args wi) = Inl e"
    by (auto simp add: performScrape_def split: prod.split sum.split)
  with h show "fst (callTool_index rt now ''fire_crawl_scrape'' args wi) =
                 error_result (''Error: '' @ message e)"
    by (simp add: callTool_index_scrape)
qed

text \<open>
  The amended C5 at status 400, \<^verbatim>\<open>Bad Request\<close>: with the text body \<^verbatim>\<open>Invalid URL\<close> in
  both files, and with the JSON body \<^verbatim>\<open>{}\<close> in index.ts.
\<close>

theorem upstream_failure_text_witness:
  "fst (callTool_part0 (serving (failure_reply 400 ''Bad Request'' ''Invalid URL'')) 0
          ''fire_crawl_scrape'' example_args (start_part0 0)) =
     error_result (''Error: FireCrawl API error: 400 Bad Request'' @ [CHR 0x0A] @ ''Invalid URL'') \<and>
   fst (callTool_index (serving (failure_reply 400 ''Bad Request'' ''Invalid URL'')) 0
          ''fire_crawl_scrape'' example_args (start_index 0)) =
     error_result ''Error: response.json is not a function'' \<and>
   fst (callTool_index (serving (failure_json_reply 400 ''Bad Request'')) 0
          ''fire_crawl_scrape'' example_args (start_index 0)) =
     error_result (''Error: FireCrawl API error: 400 Bad Request'' @ [CHR 0x0A] @ ''{}'')"
  using upstream_failure_text [of example_args 0 "start_part0 0"
          "serving (failure_reply 400 ''Bad Request'' ''Invalid URL'')"
          "failure_reply 400 ''Bad Request'' ''Invalid URL''" "''Invalid URL''" "start_index 0"]
        upstream_failure_text [of example_args 0 "start_part0 0"
          "serving (failure_json_reply 400 ''Bad Request'')"
          "failure_json_reply 400 ''Bad Request''" "''{}''" "start_index 0"]
        example_args_valid start_passes
  by (simp add: serving_def failure_reply_def failure_json_reply_def show_nat_400)

subsection \<open>The scrape response mapper of index.ts\<close>

text \<open>
  C7, as stated, fails. With \<^verbatim>\<open>success: true\<close> and \<^verbatim>\<open>data: {}\<close> the result is an error,
  not a text with \<^verbatim>\<open>isError = false\<close>; and with \<^verbatim>\<open>markdown: ""\<close> present next to a
  non-empty \<^verbatim>\<open>html\<close>, the text is the \<^verbatim>\<open>html\<close>, not the first field present.
\<close>

theorem scrape_text_counterexample:
  "fst (callTool_index (serving (json_reply (JObj [(''success'', JBool True), (''data'', JObj [])])))
          0 ''fire_crawl_scrape'' example_args (start_index 0)) =
     \<lparr>content = [\<lparr>c_type = ''text'',
                  c_text = JStr ''Error: No content received from FireCrawl API''\<rparr>],
      isError = True\<rparr> \<and>
   fst (callTool_index
          (serving (json_reply (JObj [(''success'', JBool True),
             (''data'', JObj [(''markdown'', JStr []), (''html'', JStr ''<p>hi</p>'')])])))
          0 ''fire_crawl_scrape'' example_args (start_index 0)) =
     \<lparr>content = [\<lparr>c_type = ''text'', c_text = JStr ''<p>hi</p>''\<rparr>], isError = False\<rparr>"
  by (simp add: callTool_index_def callTool_try_index_def performScrape_def post_index_def
        scrape_content_def js_or_def example_defs isScrapeOptions_def rateLimit_index_defs
        error_result_def text_result_def trim_def isWhiteSpace_def)

text \<open>
  C7, amended. For a valid scrape call that passes the rate check and is answered by an
  \<^verbatim>\<open>ok\<close> response whose body has a truthy \<^verbatim>\<open>success\<close> and an object \<^verbatim>\<open>data\<close>: when
  the first truthy one of \<^verbatim>\<open>markdown\<close>, \<^verbatim>\<open>html\<close>, \<^verbatim>\<open>rawHtml\<close> of \<^verbatim>\<open>data\<close>, in this
  order, is a non-empty string, the result is exactly one text block holding that string
  trimmed, with \<^verbatim>\<open>isError = false\<close>.
\<close>

theorem scrape_text_first_nonempty:
  "isScrapeOptions args \<and> fst (checkRateLimit_index now (limiter w)) = Inr () \<and>
   (\<forall>req. fetch rt req = Inr response) \<and> ok response \<and> resp_json response = Inr data \<and>
   truthy (member_js data ''success'') \<and> member_js data ''data'' = JObj d \<and> s \<noteq> [] \<and>
   (member_js (JObj d) ''markdown'' = JStr s
    \<or> \<not> truthy (member_js (JObj d) ''markdown'') \<and> member_js (JObj d) ''html'' = JStr s
    \<or> \<not> truthy (member_js (JObj d) ''markdown'') \<and> \<not> truthy (member_js (JObj d) ''html'') \<and>
       member_js (JObj d) ''rawHtml'' = JStr s)
   \<longrightarrow> fst (callTool_index rt now ''fire_crawl_scrape'' args w) =
         \<lparr>content = [\<lparr>c_type = ''text'', c_text = JStr (trim s)\<rparr>], isError = False\<rparr>"
proof
  assume h: "isScrapeOptions args \<and> fst (checkRateLimit_index now (limiter w)) = Inr () \<and>
   (\<forall>req. fetch rt req = Inr response) \<and> ok response \<and> resp_json response = Inr data \<and>
   truthy (member_js data ''success'') \<and> member_js data ''data'' = JObj d \<and> s \<noteq> [] \<and>
   (member_js (JObj d) ''markdown'' = JStr s
    \<or> \<not> truthy (member_js (JObj d) ''markdown'') \<and> member_js (JObj d) ''html'' = JStr s
    \<or> \<not> truthy (member_js (JObj d) ''markdown'') \<and> \<not> truthy (member_js (JObj d) ''html'') \<and>
       member_js (JObj d) ''rawHtml'' = JStr s)"
  then have "js_or (js_or (member_js (JObj d) ''markdown'') (member_js (JObj d) ''html''))
                      (member_js (JObj d) ''rawHtml'') = JStr s"
    by (auto simp add: js_or_def)
  with h have "scrape_content data = Inr (trim s)"
    by (simp add: scrape_content_data Let_def)
  with h show "fst (callTool_index rt now ''fire_crawl_scrape'' args w) =
         \<lparr>content = [\<lparr>c_type = ''text'', c_text = JStr (trim s)\<rparr>], isError = False\<rparr>"
    by (simp add: callTool_index_scrape_answered [of args now w rt response data] text_result_def)
qed

text \<open>
  The amended C7 at the payload of the scenario, at a payload without \<^verbatim>\<open>markdown\<close>, and at
  one with \<^verbatim>\<open>rawHtml\<close> only.
\<close>

theorem scrape_text_first_nonempty_witness:
  "fst (callTool_index (serving (json_reply example_payload)) 0 ''fire_crawl_scrape''
          example_args (start_index 0)) =
     \<lparr>content = [\<lparr>c_type = ''text'', c_text = JStr ''# Example''\<rparr>], isError = False\<rparr> \<and>
   fst (callTool_index
          (serving (json_reply (JObj [(''success'', JBool True),
             (''data'', JObj [(''html'', JStr '' <p>hi</p> ''), (''rawHtml'', JStr ''<html></html>'')])])))
          0 ''fire_crawl_scrape'' example_args (start_index 0)) =
     \<lparr>content = [\<lparr>c_type = ''text'', c_text = JStr ''<p>hi</p>''\<rparr>], isError = False\<rparr> \<and>
   fst (callTool_index
          (serving (json_reply (JObj [(''success'', JBool True),
             (''data'', JObj [(''rawHtml'', JStr ''<html></html>'')])])))
          0 ''fire_crawl_scrape'' example_args (start_index 0)) =
     \<lparr>content = [\<lparr>c_type = ''text'', c_text = JStr ''<html></html>''\<rparr>], isError = False\<rparr>"
  using scrape_text_first_nonempty [of example_args 0 "start_index 0"
          "serving (json_reply example_payload)" "json_reply example_payload" example_payload
          "[(''markdown'', JStr ''# Example''),
            (''metadata'', JObj [(''sourceURL'', JStr ''https://example.com''),
                                 (''statusCode'', JNum 200)])]" "''# Example''"]
        scrape_text_first_nonempty [of example_args 0 "start_index 0"
          "serving (json_reply (JObj [(''success'', JBool True),
             (''data'', JObj [(''html'', JStr '' <p>hi</p> ''), (''rawHtml'', JStr ''<html></html>'')])]))"
          "json_reply (JObj [(''success'', JBool True),
             (''data'', JObj [(''html'', JStr '' <p>hi</p> ''), (''rawHtml'', JStr ''<html></html>'')])])"
          "JObj [(''success'', JBool True),
             (''data'', JObj [(''html'', JStr '' <p>hi</p> ''), (''rawHtml'', JStr ''<html></html>'')])]"
          "[(''html'', JStr '' <p>hi</p> ''), (''rawHtml'', JStr ''<html></html>'')]"
          "'' <p>hi</p> ''"]
        scrape_text_first_nonempty [of example_args 0 "start_index 0"
          "serving (json_reply (JObj [(''success'', JBool True),
             (''data'', JObj [(''rawHtml'', JStr ''<html></html>'')])]))"
          "json_reply (JObj [(''success'', JBool True),
             (''data'', JObj [(''rawHtml'', JStr ''<html></html>'')])])"
          "JObj [(''success'', JBool True),
             (''data'', JObj [(''rawHtml'', JStr ''<html></html>'')])]"
          "[(''rawHtml'', JStr ''<html></html>'')]"
          "''<html></html>''"]
        example_args_valid start_passes
  by (simp add: serving_def json_reply_def example_payload_def trim_def isWhiteSpace_def)

text \<open>
  C10. In \<^verbatim>\<open>performScrape\<close> a content field counts when it is truthy, not when it
  exists. For a valid scrape call that passes the rate check and is answered by an \<^verbatim>\<open>ok\<close>
  response whose body has a truthy \<^verbatim>\<open>success\<close> and a truthy \<^verbatim>\<open>data\<close>: an empty
  \<^verbatim>\<open>markdown\<close> is passed over for a non-empty \<^verbatim>\<open>html\<close>, and both, empty or absent, for a
  non-empty \<^verbatim>\<open>rawHtml\<close>; and when each of the three is absent or the empty string the
  call throws \<^verbatim>\<open>No content received from FireCrawl API\<close>, which the handler returns as
  an error result.
\<close>

theorem scrape_presence_is_truthiness:
  "isScrapeOptions args \<and> fst (checkRateLimit_index now (limiter w)) = Inr () \<and>
   (\<forall>req. fetch rt req = Inr response) \<and> ok response \<and> resp_json response = Inr data \<and>
   truthy (member_js data ''success'') \<and> truthy (member_js data ''data'')
   \<longrightarrow> (member_js (member_js data ''data'') ''markdown'' = JStr [] \<and>
        member_js (member_js data ''data'') ''html'' = JStr h \<and> h \<noteq> []
        \<longrightarrow> fst (performScrape rt now args w) = Inr (trim h))
     \<and> (member_js (member_js data ''data'') ''markdown'' = JStr [] \<and>
        member_js (member_js data ''data'') ''html'' \<in> {JUndefined, JStr []} \<and>
        member_js (member_js data ''data'') ''rawHtml'' = JStr r \<and> r \<noteq> []
        \<longrightarrow> fst (performScrape rt now args w) = Inr (trim r))
     \<and> (member_js (member_js data ''data'') ''markdown'' \<in> {JUndefined, JStr []} \<and>
        member_js (member_js data ''data'') ''html'' \<in> {JUndefined, JStr []} \<and>
        member_js (member_js data ''data'') ''rawHtml'' \<in> {JUndefined, JStr []}
        \<longrightarrow> fst (performScrape rt now args w) =
              Inl (Error ''No content received from FireCrawl API'') \<and>
            fst (callTool_index rt now ''fire_crawl_scrape'' args w) =
              error_result ''Error: No content received from FireCrawl API'')"
proof
  assume h: "isScrapeOptions args \<and> fst (checkRateLimit_index now (limiter w)) = Inr () \<and>
   (\<forall>req. fetch rt req = Inr response) \<and> ok response \<and> resp_json response = Inr data \<and>
   truthy (member_js data ''success'') \<and> truthy (member_js data ''data'')"
  then have p: "fst (performScrape rt now args w) = scrape_content data"
    by (simp add: performScrape_answered [of now w rt response data])
  from h have c: "fst (callTool_index rt now ''fire_crawl_scrape'' args w) =
     (case scrape_content data of
        Inl e \<Rightarrow> error_result (''Error: '' @ message e)
      | Inr scraped \<Rightarrow> text_result scraped)"
    by (simp add: callTool_index_scrape_answered [of args now w rt response data])
  from h have s: "scrape_content data =
     (let d = member_js data ''data'';
          content = js_or (js_or (member_js d ''markdown'') (member_js d ''html''))
                      (member_js d ''rawHtml'')
      in if \<not> truthy content
         then Inl (Error ''No content received from FireCrawl API'')
         else (case content of
                 JStr s \<Rightarrow> Inr (trim s)
               | _ \<Rightarrow> Inl (Error ''content.trim is not a function'')))"
    by (simp add: scrape_content_data)
  show "(member_js (member_js data ''data'') ''markdown'' = JStr [] \<and>
        member_js (member_js data ''data'') ''html'' = JStr h \<and> h \<noteq> []
        \<longrightarrow> fst (performScrape rt now args w) = Inr (trim h))
     \<and> (member_js (member_js data ''data'') ''markdown'' = JStr [] \<and>
        member_js (member_js data ''data'') ''html'' \<in> {JUndefined, JStr []} \<and>
        member_js (member_js data ''data'') ''rawHtml'' = JStr r \<and> r \<noteq> []
        \<longrightarrow> fst (performScrape rt now args w) = Inr (trim r))
     \<and> (member_js (member_js data ''data'') ''markdown'' \<in> {JUndefined, JStr []} \<and>
        member_js (member_js data ''data'') ''html'' \<in> {JUndefined, JStr []} \<and>
        member_js (member_js data ''data'') ''rawHtml'' \<in> {JUndefined, JStr []}
        \<longrightarrow> fst (performScrape rt now args w) =
              Inl (Error ''No content received from FireCrawl API'') \<and>
            fst (callTool_index rt now ''fire_crawl_scrape'' args w) =
              error_result ''Error: No content received from FireCrawl API'')"
    unfolding p c s by (auto simp add: js_or_def Let_def)
qed

text \<open>
  C10 at a payload whose three fields are present and empty, at one whose empty
  \<^verbatim>\<open>markdown\<close> stands before an \<^verbatim>\<open>html\<close> with spaces around it, and at one whose empty
  \<^verbatim>\<open>markdown\<close> stands before a \<^verbatim>\<open>rawHtml\<close>.
\<close>

theorem scrape_presence_is_truthiness_witness:
  "fst (performScrape
          (serving (json_reply (JObj [(''success'', JBool True),
             (''data'', JObj [(''markdown'', JStr []), (''html'', JStr []), (''rawHtml'', JStr [])])])))
          0 example_args (start_index 0)) =
     Inl (Error ''No content received from FireCrawl API'') \<and>
   fst (performScrape
          (serving (json_reply (JObj [(''success'', JBool True),
             (''data'', JObj [(''markdown'', JStr []), (''html'', JStr '' <p>hi</p> '')])])))
          0 example_args (start_index 0)) = Inr ''<p>hi</p>'' \<and>
   fst (performScrape
          (serving (json_reply (JObj [(''success'', JBool True),
             (''data'', JObj [(''markdown'', JStr []), (''rawHtml'', JStr ''<html></html>'')])])))
          0 example_args (start_index 0)) = Inr ''<html></html>''"
  using scrape_presence_is_truthiness [of example_args 0 "start_index 0"
          "serving (json_reply (JObj [(''success'', JBool True),
             (''data'', JObj [(''markdown'', JStr []), (''html'', JStr []), (''rawHtml'', JStr [])])]))"
          "json_reply (JObj [(''success'', JBool True),
             (''data'', JObj [(''markdown'', JStr []), (''html'', JStr []), (''rawHtml'', JStr [])])])"
          "JObj [(''success'', JBool True),
             (''data'', JObj [(''markdown'', JStr []), (''html'', JStr []), (''rawHtml'', JStr [])])]"
          "''x''" "''x''"]
        scrape_presence_is_truthiness [of example_args 0 "start_index 0"
          "serving (json_reply (JObj [(''success'', JBool True),
             (''data'', JObj [(''markdown'', JStr []), (''html'', JStr '' <p>hi</p> '')])]))"
          "json_reply (JObj [(''success'', JBool True),
             (''data'', JObj [(''markdown'', JStr []), (''html'', JStr '' <p>hi</p> '')])])"
          "JObj [(''success'', JBool True),
             (''data'', JObj [(''markdown'', JStr []), (''html'', JStr '' <p>hi</p> '')])]"
          "'' <p>hi</p> ''" "''x''"]
        scrape_presence_is_truthiness [of example_args 0 "start_index 0"
          "serving (json_reply (JObj [(''success'', JBool True),
             (''data'', JObj [(''markdown'', JStr []), (''rawHtml'', JStr ''<html></html>'')])]))"
          "json_reply (JObj [(''success'', JBool True),
             (''data'', JObj [(''markdown'', JStr []), (''rawHtml'', JStr ''<html></html>'')])])"
          "JObj [(''success'', JBool True),
             (''data'', JObj [(''markdown'', JStr []), (''rawHtml'', JStr ''<html></html>'')])]"
          "''x''" "''<html></html>''"]
        example_args_valid start_passes
  by (simp add: serving_def json_reply_def trim_def isWhiteSpace_def)

subsection \<open>The batch response mapper of part\_000\<close>

text \<open>
  Joining strings is joining their texts; mapping \<^verbatim>\<open>markdown\<close> over results that each
  have a string there yields those strings; and \<^verbatim>\<open>batch_text\<close> reads \<^verbatim>\<open>results\<close> only.
\<close>

lemma join_js_strings: "join_js sep (map JStr ms) = join_strings sep ms"
  by (simp add: join_js_def comp_def)

lemma map_markdown_strings:
  "list_all2 (\<lambda>r m. \<exists>rf. r = JObj rf \<and> map_of rf ''markdown'' = Some (JStr m)) rs ms
     \<Longrightarrow> map_markdown rs = Inr (map JStr ms)"
  by (induction rs ms rule: list_all2_induct) auto

lemma batch_text_results:
  "map_of fs ''results'' = map_of fs' ''results'' \<Longrightarrow> batch_text (JObj fs) = batch_text (JObj fs')"
  by (simp add: batch_text_def)

text \<open>
  C8. For a valid batch call that passes the rate check and is answered by an \<^verbatim>\<open>ok\<close>
  response whose body is an object with an array \<^verbatim>\<open>results\<close>, each result an object
  with a string \<^verbatim>\<open>markdown\<close>: the result is one text block holding the markdown
  strings in order, joined by two newlines, with \<^verbatim>\<open>isError = false\<close>. The \<^verbatim>\<open>failed\<close>
  list does not enter: whatever the body binds \<^verbatim>\<open>failed\<close> to, the text is the same.
\<close>

theorem batch_text_joined:
  "(isFireCrawlBatchArgs args \<and> fst (checkRateLimit_part0 now (limiter w)) = Inr () \<and>
    (\<forall>req. fetch rt req = Inr response) \<and> ok response \<and> resp_json response = Inr (JObj fs) \<and>
    map_of fs ''results'' = Some (JArr rs) \<and>
    list_all2 (\<lambda>r m. \<exists>rf. r = JObj rf \<and> map_of rf ''markdown'' = Some (JStr m)) rs ms
    \<longrightarrow> fst (callTool_part0 rt now ''fire_crawl_batch'' args w) =
          \<lparr>content = [\<lparr>c_type = ''text'',
                       c_text = JStr (join_strings [CHR 0x0A, CHR 0x0A] ms)\<rparr>],
           isError = False\<rparr>)
   \<and> batch_text (JObj ((''failed'', failed) # fs)) = batch_text (JObj fs)"
proof (intro conjI impI)
  assume h: "isFireCrawlBatchArgs args \<and> fst (checkRateLimit_part0 now (limiter w)) = Inr () \<and>
    (\<forall>req. fetch rt req = Inr response) \<and> ok response \<and> resp_json response = Inr (JObj fs) \<and>
    map_of fs ''results'' = Some (JArr rs) \<and>
    list_all2 (\<lambda>r m. \<exists>rf. r = JObj rf \<and> map_of rf ''markdown'' = Some (JStr m)) rs ms"
  then have p: "fst (performBatchScrape rt now (member_js args ''urls'') (member_js args ''options'')
                   (FIRE_CRAWL_API_KEY rt) w) = Inr (JObj fs)"
    by (simp add: performBatchScrape_answered [of now w rt response])
  from h have "map_markdown rs = Inr (map JStr ms)"
    by (simp add: map_markdown_strings)
  with h have "batch_text (JObj fs) = Inr (join_strings [CHR 0x0A, CHR 0x0A] ms)"
    by (simp add: batch_text_def join_js_strings)
  with h p show "fst (callTool_part0 rt now ''fire_crawl_batch'' args w) =
          \<lparr>content = [\<lparr>c_type = ''text'',
                       c_text = JStr (join_strings [CHR 0x0A, CHR 0x0A] ms)\<rparr>],
           isError = False\<rparr>"
    by (simp add: callTool_part0_batch text_result_def)
next
  show "batch_text (JObj ((''failed'', failed) # fs)) = batch_text (JObj fs)"
    by (rule batch_text_results) simp
qed

text \<open>
  C8 at the scenario: two results with markdown \<^verbatim>\<open>A\<close> and \<^verbatim>\<open>B\<close>, and one failed URL.
\<close>

theorem batch_text_joined_witness:
  "fst (callTool_part0 (serving (json_reply (example_batch (JArr [JStr ''https://example3.com''])))) 0
          ''fire_crawl_batch'' example_batch_args (start_part0 0)) =
     \<lparr>content = [\<lparr>c_type = ''text'', c_text = JStr (''A'' @ [CHR 0x0A, CHR 0x0A] @ ''B'')\<rparr>],
      isError = False\<rparr>"
  using batch_text_joined [of example_batch_args 0 "start_part0 0"
          "serving (json_reply (example_batch (JArr [JStr ''https://example3.com''])))"
          "json_reply (example_batch (JArr [JStr ''https://example3.com'']))"
          "[(''results'', JArr [JObj [(''url'', JStr ''https://example1.com''), (''markdown'', JStr ''A'')],
                               JObj [(''url'', JStr ''https://example2.com''), (''markdown'', JStr ''B'')]]),
            (''failed'', JArr [JStr ''https://example3.com''])]"
          "[JObj [(''url'', JStr ''https://example1.com''), (''markdown'', JStr ''A'')],
            JObj [(''url'', JStr ''https://example2.com''), (''markdown'', JStr ''B'')]]"
          "[''A'', ''B'']"]
        start_passes
  by (simp add: serving_def json_reply_def example_batch_def example_batch_args_def
        isFireCrawlBatchArgs_def)

end
